theory Spec2Isabelle
  imports Complex_Main "HOL-Library.Multiset" "HOL-Library.Sublist"
begin

section \<open>Shared store (AgentDBClient)\<close>

text \<open>
  The store is an SQLite database. Each table is modelled as the list of its rows in
  insertion (rowid) order. A statement that violates a constraint raises; the raise is a
  value of \<open>db_error\<close>. Every operation returns its outcome together with the database it
  leaves behind, since each statement is committed on its own.

  Timestamps written by \<open>datetime('now')\<close> are integers supplied by the caller (\<open>now\<close>);
  identifiers made by \<open>uuidv4()\<close> are supplied by the caller as well (\<open>uuid\<close>). Columns
  that hold JSON text are modelled by the value that was serialised. The \<open>embedding\<close>
  columns (float arrays) and the tables \<open>memory_entries\<close> and \<open>agent_tasks\<close> are left out.
\<close>

datatype db_error = PrimaryKeyConstraint | ForeignKeyConstraint

record key_question =
  kq_id :: string
  kq_question :: string
  kq_priority :: "string option"
  kq_category :: string
  kq_subQuestions :: "string list option"

record source =
  s_id :: string
  s_type :: string
  s_url :: "string option"
  s_title :: string
  s_author :: "string option"
  s_publishedDate :: "string option"
  s_accessedAt :: string
  s_relevanceScore :: rat
  s_snippet :: "string option"
  s_metadata :: "string option"

record research_finding =
  f_id :: string
  f_projectId :: string
  f_questionId :: string
  f_agentId :: string
  f_agentType :: string
  f_category :: string
  f_title :: string
  f_content :: string
  f_summary :: string
  f_confidence :: string
  f_sources :: "source list"
  f_relatedFindings :: "string list"
  f_discoveredAt :: int
  f_lastUpdated :: int

record project_row =
  pr_id :: string
  pr_name :: string
  pr_target_company :: string
  pr_status :: string
  pr_scoping_document :: string

record source_row =
  sr_project_id :: string
  sr_source :: source

record shared_context_row =
  sc_project_id :: string
  sc_target_company :: string
  sc_key_questions :: "key_question list"
  sc_completed_tasks :: "string list"
  sc_pending_tasks :: "string list"
  sc_discovered_insights :: "string list"

text \<open>
  In the \<open>findings\<close> table the columns \<open>created_at\<close> and \<open>updated_at\<close> are the fields
  \<open>f_discoveredAt\<close> and \<open>f_lastUpdated\<close> of the row: that is where \<open>getFindings\<close> puts them.
  \<open>foreign_keys\<close> says whether the connection enforces the \<open>FOREIGN KEY\<close> clauses.
\<close>

record db =
  foreign_keys :: bool
  projects :: "project_row list"
  findings :: "research_finding list"
  sources :: "source_row list"
  shared_context :: "shared_context_row list"

definition empty_db :: "bool \<Rightarrow> db" where
  "empty_db fk = \<lparr>foreign_keys = fk, projects = [], findings = [], sources = [],
     shared_context = []\<rparr>"

definition project_exists :: "db \<Rightarrow> string \<Rightarrow> bool" where
  "project_exists d pid = (pid \<in> set (map pr_id (projects d)))"

definition fk_ok :: "db \<Rightarrow> string \<Rightarrow> bool" where
  "fk_ok d pid = (foreign_keys d \<longrightarrow> project_exists d pid)"

text \<open>JavaScript's \<open>s || alt\<close> on a string: the empty string is falsy.\<close>

definition str_or :: "string \<Rightarrow> string \<Rightarrow> string" where
  "str_or s alt = (if s = [] then alt else s)"

text \<open>\<open>s || null\<close> on an optional string, and \<open>row.col || undefined\<close> on the way back.\<close>

definition or_null :: "string option \<Rightarrow> string option" where
  "or_null s = (case s of None \<Rightarrow> None | Some v \<Rightarrow> if v = [] then None else Some v)"

text \<open>\<open>ORDER BY k DESC\<close>: rows with equal keys are kept in rowid order.\<close>

definition order_by_desc :: "('a \<Rightarrow> 'k::linorder) \<Rightarrow> 'a list \<Rightarrow> 'a list" where
  "order_by_desc k rows = rev (sort_key k (rev rows))"

subsection \<open>Project operations\<close>

text \<open>
  The argument \<open>scopingDocument: object\<close> of \<open>createProject\<close> is read twice: serialised as a
  whole, and through its optional member \<open>keyQuestions\<close>.
\<close>

record scoping_object =
  so_json :: string
  so_keyQuestions :: "key_question list option"

definition createProject ::
  "db \<Rightarrow> string \<Rightarrow> string \<Rightarrow> string \<Rightarrow> scoping_object \<Rightarrow> (db_error + unit) \<times> db" where
  "createProject d ident name targetCompany scopingDocument =
    (if project_exists d ident then (Inl PrimaryKeyConstraint, d)
     else
       let d1 = d\<lparr>projects := projects d @
                  [\<lparr>pr_id = ident, pr_name = name, pr_target_company = targetCompany,
                    pr_status = ''pending'', pr_scoping_document = so_json scopingDocument\<rparr>]\<rparr>
       in if ident \<in> set (map sc_project_id (shared_context d1))
          then (Inl PrimaryKeyConstraint, d1)
          else (Inr (),
                d1\<lparr>shared_context := shared_context d1 @
                  [\<lparr>sc_project_id = ident, sc_target_company = targetCompany,
                    sc_key_questions =
                      (case so_keyQuestions scopingDocument of None \<Rightarrow> [] | Some qs \<Rightarrow> qs),
                    sc_completed_tasks = [], sc_pending_tasks = [],
                    sc_discovered_insights = []\<rparr>]\<rparr>))"

definition updateProjectStatus_db :: "db \<Rightarrow> string \<Rightarrow> string \<Rightarrow> db" where
  "updateProjectStatus_db d projectId status =
     d\<lparr>projects := map (\<lambda>r. if pr_id r = projectId then r\<lparr>pr_status := status\<rparr> else r)
                        (projects d)\<rparr>"

subsection \<open>Finding operations\<close>

definition storeFinding ::
  "db \<Rightarrow> research_finding \<Rightarrow> string \<Rightarrow> int \<Rightarrow> (db_error + string) \<times> db" where
  "storeFinding d finding uuid now =
    (let ident = str_or (f_id finding) uuid in
     if ident \<in> set (map f_id (findings d)) then (Inl PrimaryKeyConstraint, d)
     else if \<not> fk_ok d (f_projectId finding) then (Inl ForeignKeyConstraint, d)
     else (Inr ident,
           d\<lparr>findings := findings d @
               [finding\<lparr>f_id := ident, f_discoveredAt := now, f_lastUpdated := now\<rparr>]\<rparr>))"

text \<open>
  \<open>if (questionId)\<close> adds the second condition of the query only for a question id that is
  present and not the empty string.
\<close>

definition getFindings ::
  "db \<Rightarrow> string \<Rightarrow> string option \<Rightarrow> research_finding list \<times> db" where
  "getFindings d projectId questionId =
    (let selected =
       (case or_null questionId of
          None \<Rightarrow> filter (\<lambda>r. f_projectId r = projectId) (findings d)
        | Some q \<Rightarrow> filter (\<lambda>r. f_projectId r = projectId \<and> f_questionId r = q) (findings d))
     in (order_by_desc f_discoveredAt selected, d))"

subsection \<open>Source operations\<close>

text \<open>The column values that \<open>registerSource\<close> binds for a source, under the id chosen.\<close>

definition stored_source :: "string \<Rightarrow> source \<Rightarrow> source" where
  "stored_source ident src = src\<lparr>s_id := ident, s_url := or_null (s_url src),
     s_author := or_null (s_author src), s_publishedDate := or_null (s_publishedDate src),
     s_snippet := or_null (s_snippet src),
     s_metadata := (case s_metadata src of None \<Rightarrow> Some ''{}'' | Some m \<Rightarrow> Some m)\<rparr>"


definition getSources :: "db \<Rightarrow> string \<Rightarrow> source list" where
  "getSources d projectId =
     map (\<lambda>r. (sr_source r)\<lparr>s_url := or_null (s_url (sr_source r)),
                 s_author := or_null (s_author (sr_source r)),
                 s_publishedDate := or_null (s_publishedDate (sr_source r)),
                 s_snippet := or_null (s_snippet (sr_source r)),
                 s_metadata := or_null (s_metadata (sr_source r))\<rparr>)
       (order_by_desc (\<lambda>r. s_relevanceScore (sr_source r))
          (filter (\<lambda>r. sr_project_id r = projectId) (sources d)))"

subsection \<open>Shared context operations\<close>

record shared_context_t =
  ctx_projectId :: string
  ctx_targetCompany :: string
  ctx_keyQuestions :: "key_question list"
  ctx_completedTasks :: "string list"
  ctx_pendingTasks :: "string list"
  ctx_discoveredInsights :: "string list"
  ctx_sourceRegistry :: "string \<rightharpoonup> source"

definition getSharedContext :: "db \<Rightarrow> string \<Rightarrow> shared_context_t option" where
  "getSharedContext d projectId =
    (case find (\<lambda>r. sc_project_id r = projectId) (shared_context d) of
       None \<Rightarrow> None
     | Some row \<Rightarrow> Some
         \<lparr>ctx_projectId = sc_project_id row,
          ctx_targetCompany = sc_target_company row,
          ctx_keyQuestions = sc_key_questions row,
          ctx_completedTasks = sc_completed_tasks row,
          ctx_pendingTasks = sc_pending_tasks row,
          ctx_discoveredInsights = sc_discovered_insights row,
          ctx_sourceRegistry = map_of (rev (map (\<lambda>s. (s_id s, s)) (getSources d projectId)))\<rparr>)"

text \<open>
  \<open>Partial<Omit<SharedContext, 'projectId' | 'sourceRegistry'>>\<close>: every member may be
  absent. In \<open>updates.x || current.x\<close> an array is always truthy, a string only when it is
  not empty.
\<close>

record context_updates =
  u_targetCompany :: "string option"
  u_keyQuestions :: "key_question list option"
  u_completedTasks :: "string list option"
  u_pendingTasks :: "string list option"
  u_discoveredInsights :: "string list option"

definition no_updates :: context_updates where
  "no_updates = \<lparr>u_targetCompany = None, u_keyQuestions = None, u_completedTasks = None,
     u_pendingTasks = None, u_discoveredInsights = None\<rparr>"

definition list_or :: "'a list option \<Rightarrow> 'a list \<Rightarrow> 'a list" where
  "list_or u cur = (case u of None \<Rightarrow> cur | Some v \<Rightarrow> v)"

definition updateSharedContext :: "db \<Rightarrow> string \<Rightarrow> context_updates \<Rightarrow> db" where
  "updateSharedContext d projectId updates =
    (case getSharedContext d projectId of
       None \<Rightarrow> d
     | Some current \<Rightarrow>
         d\<lparr>shared_context := map (\<lambda>r. if sc_project_id r = projectId
             then r\<lparr>sc_target_company :=
                      (case or_null (u_targetCompany updates) of
                         None \<Rightarrow> ctx_targetCompany current | Some t \<Rightarrow> t),
                    sc_key_questions := list_or (u_keyQuestions updates) (ctx_keyQuestions current),
                    sc_completed_tasks :=
                      list_or (u_completedTasks updates) (ctx_completedTasks current),
                    sc_pending_tasks := list_or (u_pendingTasks updates) (ctx_pendingTasks current),
                    sc_discovered_insights :=
                      list_or (u_discoveredInsights updates) (ctx_discoveredInsights current)\<rparr>
             else r) (shared_context d)\<rparr>)"

definition addCompletedTask :: "db \<Rightarrow> string \<Rightarrow> string \<Rightarrow> db" where
  "addCompletedTask d projectId task =
    (case getSharedContext d projectId of
       None \<Rightarrow> d
     | Some context \<Rightarrow>
         let completedTasks = ctx_completedTasks context @ [task];
             pendingTasks = filter (\<lambda>t. t \<noteq> task) (ctx_pendingTasks context)
         in updateSharedContext d projectId
              (no_updates\<lparr>u_completedTasks := Some completedTasks,
                          u_pendingTasks := Some pendingTasks\<rparr>))"

section \<open>Orchestrator (ResearchOrchestrator)\<close>

text \<open>
  The orchestrator is modelled for one project: the state holds the project object that
  \<open>executeWorkflow\<close> works on, which is also the only entry of \<open>activeProjects\<close>, so that
  \<open>pauseProject\<close> and the workflow change the same object.

  What lies outside the orchestrator is a parameter, collected in \<open>env\<close>: the ids that
  \<open>uuidv4()\<close> returns, the outcome of each agent run (a result, or a thrown value) and its
  writes to the store, the \<open>agentId\<close> of each registered agent, \<open>JSON.stringify\<close> of the
  scoping document and whether \<open>JSON.parse\<close> accepts a text. Wall-clock timestamps
  (\<open>startedAt\<close>, \<open>completedAt\<close>, \<open>occurredAt\<close>, the events' \<open>timestamp\<close>) and the
  percentage of the \<open>agent:progress\<close> event (a floating-point quotient) are left out.
\<close>

datatype research_status =
  Pending | Initializing | Researching | Analyzing | Synthesizing | Reviewing
  | Completed | Failed | Paused

datatype agent_state = AgentIdle | AgentActive | AgentCompleted | AgentError

datatype js_exception = Error string | NonError

definition error_message :: "js_exception \<Rightarrow> string" where
  "error_message x = (case x of Error m \<Rightarrow> m | NonError \<Rightarrow> ''Unknown error'')"

text \<open>
  A value read from an object by a computed key: \<open>Value v\<close> is a value of the expected type,
  \<open>Member k\<close> the member named \<open>k\<close> that every object inherits from \<open>Object.prototype\<close>.
\<close>

datatype 'a js_value = Value 'a | Member string

text \<open>A JavaScript number: finite (every finite double is a rational), infinite or \<open>NaN\<close>.\<close>

datatype js_number = Num rat | PosInfinity | NegInfinity | NaN

record agent_context =
  c_projectId :: string
  c_targetCompany :: string
  c_questionId :: "string option"
  c_question :: "string option"
  c_additionalContext :: "string option"

record task_definition =
  t_id :: string
  t_agentType :: string
  t_context :: agent_context
  t_priority :: "int js_value"
  t_dependencies :: "string list"

record agent_result =
  r_success :: bool
  r_findings :: "research_finding list"
  r_sources :: "source list"
  r_insights :: "string list"
  r_error :: "string option"
  r_tokensUsed :: int

datatype exec_outcome = Returns agent_result | Throws js_exception

record agent_status =
  a_id :: string
  a_type :: string
  a_name :: string
  a_status :: agent_state
  a_currentTask :: "string option"
  a_progress :: int
  a_tokensUsed :: int

record research_error =
  e_id :: string
  e_projectId :: string
  e_agentId :: "string option"
  e_type :: string
  e_message :: string
  e_recoverable :: bool

record scoping_document =
  sd_id :: string
  sd_projectName :: string
  sd_targetCompany_name :: string
  sd_keyQuestions :: "key_question list"
  sd_webSearch :: bool
  sd_financialReports :: bool

record fallback_report =
  rp_id :: string
  rp_projectId :: string
  rp_title :: string
  rp_executiveSummary :: string
  rp_keyInsights :: "string list"
  rp_wordCount :: nat
  rp_sourcesCount :: nat

datatype research_report = ParsedReport string | FallbackReport fallback_report

record research_project =
  p_id :: string
  p_scopingDocument :: scoping_document
  p_status :: research_status
  p_progress :: int
  p_currentPhase :: string
  p_agents :: "agent_status list"
  p_findings :: "research_finding list"
  p_report :: "research_report option"
  p_errors :: "research_error list"
  p_totalTokensUsed :: int
  p_totalSearches :: int
  p_totalSources :: int

datatype event =
    ProjectCreated
  | ProjectUpdated research_status "int option" "string option"
  | ProjectCompleted
  | ProjectFailed string
  | AgentStarted string string "string option"
  | AgentProgress string nat nat
  | AgentErrorEvent string "string option"
  | FindingDiscovered string nat "string list"
  | ReportCompleted "research_report option"

record env =
  uuidv4 :: "nat \<Rightarrow> string"
  execute :: "task_definition \<Rightarrow> exec_outcome"
  execute_writes :: "task_definition \<Rightarrow> db \<Rightarrow> db"
  report_execute :: exec_outcome
  report_writes :: "db \<Rightarrow> db"
  agentId :: "string \<Rightarrow> string"
  json_stringify :: "scoping_document \<Rightarrow> string"
  json_parses :: "string \<Rightarrow> bool"

text \<open>
  \<open>runningTasks\<close> is the \<open>Set\<close> of task ids, kept as a list without repetition in
  insertion order. \<open>inflight\<close> lists the tasks whose \<open>executeTask\<close> promise is not settled,
  a task as often as it is dispatched.
  \<open>uuid_count\<close> counts the calls of \<open>uuidv4()\<close> made so far.
\<close>

record orchestrator =
  maxConcurrentAgents :: js_number
  memory :: db
  project :: research_project
  taskQueue :: "task_definition list"
  runningTasks :: "string list"
  inflight :: "task_definition list"
  events :: "event list"
  uuid_count :: nat

definition set_add :: "'a \<Rightarrow> 'a list \<Rightarrow> 'a list" where
  "set_add x xs = (if x \<in> set xs then xs else xs @ [x])"

definition set_delete :: "'a \<Rightarrow> 'a list \<Rightarrow> 'a list" where
  "set_delete x xs = removeAll x xs"

definition emitEvent :: "event \<Rightarrow> orchestrator \<Rightarrow> orchestrator" where
  "emitEvent ev \<sigma> = \<sigma>\<lparr>events := events \<sigma> @ [ev]\<rparr>"

text \<open>
  \<open>config.maxConcurrentAgents || 5\<close>: absent, 0 and \<open>NaN\<close> give 5; every other number is
  kept, negative, fractional or infinite as it may be.
\<close>

definition config_maxConcurrentAgents :: "js_number option \<Rightarrow> js_number" where
  "config_maxConcurrentAgents c =
    (case c of
       None \<Rightarrow> Num 5
     | Some NaN \<Rightarrow> Num 5
     | Some (Num n) \<Rightarrow> if n = 0 then Num 5 else Num n
     | Some PosInfinity \<Rightarrow> PosInfinity
     | Some NegInfinity \<Rightarrow> NegInfinity)"

text \<open>\<open>size >= cap\<close>, for the size of a set. A comparison with \<open>NaN\<close> is false.\<close>

definition size_ge :: "nat \<Rightarrow> js_number \<Rightarrow> bool" where
  "size_ge n c =
    (case c of
       Num r \<Rightarrow> r \<le> of_nat n
     | PosInfinity \<Rightarrow> False
     | NegInfinity \<Rightarrow> True
     | NaN \<Rightarrow> False)"

definition agent_types :: "string list" where
  "agent_types = [''web_researcher'', ''financial_analyst'', ''competitive_intelligence'',
     ''report_generator'']"

definition createAgentStatuses :: "agent_status list" where
  "createAgentStatuses =
    [\<lparr>a_id = ''web_researcher'', a_type = ''web_researcher'', a_name = ''Web Researcher'',
      a_status = AgentIdle, a_currentTask = None, a_progress = 0, a_tokensUsed = 0\<rparr>,
     \<lparr>a_id = ''financial_analyst'', a_type = ''financial_analyst'', a_name = ''Financial Analyst'',
      a_status = AgentIdle, a_currentTask = None, a_progress = 0, a_tokensUsed = 0\<rparr>,
     \<lparr>a_id = ''competitive_intelligence'', a_type = ''competitive_intelligence'',
      a_name = ''Competitive Intelligence'',
      a_status = AgentIdle, a_currentTask = None, a_progress = 0, a_tokensUsed = 0\<rparr>,
     \<lparr>a_id = ''report_generator'', a_type = ''report_generator'', a_name = ''Report Generator'',
      a_status = AgentIdle, a_currentTask = None, a_progress = 0, a_tokensUsed = 0\<rparr>]"

subsection \<open>Status updates\<close>

definition updateProjectStatus ::
  "orchestrator \<Rightarrow> research_status \<Rightarrow> int \<Rightarrow> string \<Rightarrow> orchestrator" where
  "updateProjectStatus \<sigma> status progress phase =
     emitEvent (ProjectUpdated status (Some progress) (Some phase))
       (\<sigma>\<lparr>project := (project \<sigma>)\<lparr>p_status := status, p_progress := progress,
                                   p_currentPhase := phase\<rparr>\<rparr>)"

text \<open>\<open>project.agents.find(...)\<close> and the assignments to the object found.\<close>

fun update_first :: "('a \<Rightarrow> bool) \<Rightarrow> ('a \<Rightarrow> 'a) \<Rightarrow> 'a list \<Rightarrow> 'a list" where
  "update_first P f [] = []"
| "update_first P f (x # xs) = (if P x then f x # xs else x # update_first P f xs)"

definition updateAgentStatus ::
  "orchestrator \<Rightarrow> string \<Rightarrow> agent_state \<Rightarrow> string option \<Rightarrow> orchestrator" where
  "updateAgentStatus \<sigma> agentType status task =
     \<sigma>\<lparr>project := (project \<sigma>)\<lparr>p_agents :=
        update_first (\<lambda>a. a_type a = agentType)
          (\<lambda>a. a\<lparr>a_status := status, a_currentTask := task\<rparr>) (p_agents (project \<sigma>))\<rparr>\<rparr>"

definition handleProjectError :: "env \<Rightarrow> orchestrator \<Rightarrow> js_exception \<Rightarrow> orchestrator" where
  "handleProjectError e \<sigma> err =
    (let errorMessage = error_message err;
         p = project \<sigma>
     in emitEvent (ProjectFailed errorMessage)
          (\<sigma>\<lparr>project := p\<lparr>p_status := Failed,
                 p_errors := p_errors p @
                   [\<lparr>e_id = uuidv4 e (uuid_count \<sigma>), e_projectId = p_id p, e_agentId = None,
                     e_type = ''internal'', e_message = errorMessage, e_recoverable = False\<rparr>]\<rparr>,
              uuid_count := Suc (uuid_count \<sigma>),
              memory := updateProjectStatus_db (memory \<sigma>) (p_id p) ''failed''\<rparr>))"

definition pauseProject :: "orchestrator \<Rightarrow> string \<Rightarrow> orchestrator" where
  "pauseProject \<sigma> projectId =
    (if projectId = p_id (project \<sigma>) \<and> p_status (project \<sigma>) \<noteq> Completed
         \<and> p_status (project \<sigma>) \<noteq> Failed
     then emitEvent (ProjectUpdated Paused None None)
            (\<sigma>\<lparr>project := (project \<sigma>)\<lparr>p_status := Paused\<rparr>,
                memory := updateProjectStatus_db (memory \<sigma>) projectId ''paused''\<rparr>)
     else \<sigma>)"

subsection \<open>Planning\<close>

text \<open>
  \<open>categoryAgentMap\<close> and \<open>priorityMap\<close> are object literals, and \<open>obj[key]\<close> reads the
  literal's own keys first and then the members that every object inherits from
  \<open>Object.prototype\<close>. An inherited member is a function (or, for \<open>__proto__\<close>, the prototype
  object): it is truthy, so \<open>||\<close> keeps it, and it is neither a number nor iterable. A value
  read this way is \<open>Value v\<close> or \<open>Member k\<close>.
\<close>

definition object_prototype_members :: "string list" where
  "object_prototype_members =
    [''constructor'', ''__defineGetter__'', ''__defineSetter__'', ''hasOwnProperty'',
     ''__lookupGetter__'', ''__lookupSetter__'', ''isPrototypeOf'', ''propertyIsEnumerable'',
     ''toString'', ''valueOf'', ''__proto__'', ''toLocaleString'']"

datatype 'a property = Own 'a | Inherited string | Undefined

definition get_property :: "(string \<times> 'a) list \<Rightarrow> string \<Rightarrow> 'a property" where
  "get_property obj k =
    (case map_of obj k of
       Some v \<Rightarrow> Own v
     | None \<Rightarrow> if k \<in> set object_prototype_members then Inherited k else Undefined)"

definition categoryAgentMap :: "(string \<times> string list) list" where
  "categoryAgentMap =
    [(''financial'', [''financial_analyst'', ''web_researcher'']),
     (''competitive'', [''competitive_intelligence'', ''web_researcher'']),
     (''market'', [''competitive_intelligence'', ''web_researcher'']),
     (''leadership'', [''web_researcher'']),
     (''technology'', [''web_researcher'', ''competitive_intelligence'']),
     (''legal'', [''web_researcher'']),
     (''operational'', [''web_researcher'', ''financial_analyst'']),
     (''reputation'', [''web_researcher'']),
     (''custom'', [''web_researcher''])]"

text \<open>\<open>categoryAgentMap[question.category] || ['web_researcher']\<close>: an array is truthy.\<close>

definition determineAgentsForQuestion :: "key_question \<Rightarrow> string list js_value" where
  "determineAgentsForQuestion question =
    (case get_property categoryAgentMap (kq_category question) of
       Own agentTypes \<Rightarrow> Value agentTypes
     | Inherited k \<Rightarrow> Member k
     | Undefined \<Rightarrow> Value [''web_researcher''])"

definition priorityMap :: "(string \<times> int) list" where
  "priorityMap = [(''critical'', 4), (''high'', 3), (''medium'', 2), (''low'', 1)]"

text \<open>
  \<open>priorityMap[priority] || 2\<close>. An absent priority is \<open>None\<close>; as a key it is the string
  \<open>undefined\<close>. The number 0 is falsy.
\<close>

definition questionPriorityToNumber :: "string option \<Rightarrow> int js_value" where
  "questionPriorityToNumber priority =
    (case get_property priorityMap (case priority of None \<Rightarrow> ''undefined'' | Some k \<Rightarrow> k) of
       Own n \<Rightarrow> if n = 0 then Value 2 else Value n
     | Inherited k \<Rightarrow> Member k
     | Undefined \<Rightarrow> Value 2)"

text \<open>\<open>Array.prototype.join\<close> on strings.\<close>

fun join :: "string \<Rightarrow> string list \<Rightarrow> string" where
  "join sep [] = []"
| "join sep [x] = x"
| "join sep (x # y # ys) = x @ sep @ join sep (y # ys)"

definition question_task ::
  "env \<Rightarrow> string \<Rightarrow> string \<Rightarrow> key_question \<Rightarrow> string \<Rightarrow> nat \<Rightarrow> task_definition" where
  "question_task e projectId targetCompanyName question agentType n =
     \<lparr>t_id = uuidv4 e n, t_agentType = agentType,
      t_context = \<lparr>c_projectId = projectId,
                   c_targetCompany = targetCompanyName,
                   c_questionId = Some (kq_id question),
                   c_question = Some (kq_question question),
                   c_additionalContext = map_option (join ''; '') (kq_subQuestions question)\<rparr>,
      t_priority = questionPriorityToNumber (kq_priority question),
      t_dependencies = []\<rparr>"

definition general_task ::
  "env \<Rightarrow> string \<Rightarrow> string \<Rightarrow> string \<Rightarrow> string \<Rightarrow> nat \<Rightarrow> task_definition" where
  "general_task e projectId targetCompanyName agentType questionText n =
     \<lparr>t_id = uuidv4 e n, t_agentType = agentType,
      t_context = \<lparr>c_projectId = projectId,
                   c_targetCompany = targetCompanyName,
                   c_questionId = None,
                   c_question = Some questionText,
                   c_additionalContext = None\<rparr>,
      t_priority = Value 2,
      t_dependencies = []\<rparr>"

text \<open>
  The two nested \<open>for\<close> loops of \<open>planResearch\<close>; the accumulator is the \<open>tasks\<close> array with
  the number of ids drawn. \<open>for (const agentType of agentTypes)\<close> throws a \<open>TypeError\<close> when
  \<open>agentTypes\<close> is an inherited member, which is not iterable; the loop over the questions
  ends there, with the exception.
\<close>

fun agent_loop ::
  "env \<Rightarrow> string \<Rightarrow> string \<Rightarrow> key_question \<Rightarrow> string list \<Rightarrow>
     task_definition list \<times> nat \<Rightarrow> task_definition list \<times> nat" where
  "agent_loop e pid target question [] acc = acc"
| "agent_loop e pid target question (agentType # rest) (tasks, n) =
     agent_loop e pid target question rest
       (tasks @ [question_task e pid target question agentType n], Suc n)"

fun question_loop ::
  "env \<Rightarrow> string \<Rightarrow> string \<Rightarrow> key_question list \<Rightarrow>
     task_definition list \<times> nat \<Rightarrow> js_exception option \<times> task_definition list \<times> nat" where
  "question_loop e pid target [] acc = (None, acc)"
| "question_loop e pid target (question # rest) acc =
     (case determineAgentsForQuestion question of
        Member k \<Rightarrow> (Some (Error ''agentTypes is not iterable''), acc)
      | Value agentTypes \<Rightarrow>
          question_loop e pid target rest (agent_loop e pid target question agentTypes acc))"

text \<open>
  The comparator \<open>(a, b) => b.priority - a.priority\<close>. A difference with a priority that is
  not a number is \<open>NaN\<close>, which \<open>sort\<close> takes as 0.
\<close>

definition compare_priority :: "task_definition \<Rightarrow> task_definition \<Rightarrow> int" where
  "compare_priority a b =
    (case (t_priority b, t_priority a) of
       (Value y, Value x) \<Rightarrow> y - x
     | _ \<Rightarrow> 0)"

text \<open>
  \<open>tasks.sort(cmp)\<close> is a stable sort: an element moves in front of another only when the
  comparator is positive for the pair in their current order. (When a priority is not a
  number the comparator is not consistent and the language leaves the order to the engine;
  the order taken here is then one of those possible.)
\<close>

fun insert_by :: "('a \<Rightarrow> 'a \<Rightarrow> int) \<Rightarrow> 'a \<Rightarrow> 'a list \<Rightarrow> 'a list" where
  "insert_by cmp x [] = [x]"
| "insert_by cmp x (y # ys) = (if cmp x y \<le> 0 then x # y # ys else y # insert_by cmp x ys)"

definition sort_by :: "('a \<Rightarrow> 'a \<Rightarrow> int) \<Rightarrow> 'a list \<Rightarrow> 'a list" where
  "sort_by cmp xs = foldr (insert_by cmp) xs []"

text \<open>
  The task-building part of \<open>planResearch\<close>: the exception that leaves it, if any, the
  \<open>tasks\<close> array and the number of ids drawn.
\<close>

definition plan_tasks ::
  "env \<Rightarrow> string \<Rightarrow> scoping_document \<Rightarrow> nat \<Rightarrow>
     js_exception option \<times> task_definition list \<times> nat" where
  "plan_tasks e pid doc n0 =
    (let target = sd_targetCompany_name doc in
     case question_loop e pid target (sd_keyQuestions doc) ([], n0) of
       (Some err, acc) \<Rightarrow> (Some err, acc)
     | (None, acc1) \<Rightarrow>
         let acc2 = (if sd_webSearch doc
                     then (fst acc1 @ [general_task e pid target ''web_researcher''
                              (''General company research and background on '' @ target)
                              (snd acc1)], Suc (snd acc1))
                     else acc1);
             acc3 = (if sd_financialReports doc
                     then (fst acc2 @ [general_task e pid target ''financial_analyst''
                              (''Financial overview and health assessment of '' @ target)
                              (snd acc2)], Suc (snd acc2))
                     else acc2)
         in (None, acc3))"

definition pending_description :: "task_definition \<Rightarrow> string" where
  "pending_description t = t_agentType t @ '': '' @
     (case c_question (t_context t) of None \<Rightarrow> ''undefined'' | Some q \<Rightarrow> q)"

text \<open>\<open>planResearch\<close>: the exception that leaves it, if any, and the state at that moment.\<close>

definition planResearch :: "env \<Rightarrow> orchestrator \<Rightarrow> js_exception option \<times> orchestrator" where
  "planResearch e \<sigma> =
    (let \<sigma>1 = updateProjectStatus \<sigma> Initializing 5 ''Planning research strategy'' in
     case plan_tasks e (p_id (project \<sigma>1)) (p_scopingDocument (project \<sigma>1)) (uuid_count \<sigma>1) of
       (Some err, tasks, n) \<Rightarrow> (Some err, \<sigma>1\<lparr>uuid_count := n\<rparr>)
     | (None, tasks, n) \<Rightarrow>
         let pendingTasks = map pending_description tasks;
             \<sigma>2 = \<sigma>1\<lparr>uuid_count := n,
                     memory := updateSharedContext (memory \<sigma>1) (p_id (project \<sigma>1))
                                 (no_updates\<lparr>u_pendingTasks := Some pendingTasks\<rparr>)\<rparr>;
             \<sigma>3 = \<sigma>2\<lparr>taskQueue := sort_by compare_priority tasks\<rparr>
         in (None, updateProjectStatus \<sigma>3 Researching 10 ''Research plan created''))"

subsection \<open>Task execution\<close>

text \<open>
  \<open>executeTask\<close> is an \<open>async\<close> function with one \<open>await\<close>, on \<open>agent.execute\<close>. Its part
  before the \<open>await\<close> runs when the task is dispatched (\<open>executeTask_start\<close>); its part after
  the \<open>await\<close> runs when the agent run has ended (\<open>executeTask_resume\<close>), and says whether
  the promise of \<open>executeTask\<close> is rejected, and with what. For an agent type that is not
  registered the promise is rejected and nothing else happens.
\<close>

definition executeTask_start :: "task_definition \<Rightarrow> orchestrator \<Rightarrow> orchestrator" where
  "executeTask_start task \<sigma> =
    (if t_agentType task \<notin> set agent_types then \<sigma>
     else emitEvent (AgentStarted (t_agentType task) (t_id task) (c_question (t_context task)))
            (updateAgentStatus \<sigma> (t_agentType task) AgentActive
               (Some (case or_null (c_question (t_context task)) of
                        None \<Rightarrow> ''Processing'' | Some q \<Rightarrow> q))))"

definition executeTask_resume ::
  "env \<Rightarrow> task_definition \<Rightarrow> orchestrator \<Rightarrow> js_exception option \<times> orchestrator" where
  "executeTask_resume e task \<sigma> =
    (if t_agentType task \<notin> set agent_types
     then (Some (Error (''Unknown agent type: '' @ t_agentType task)), \<sigma>)
     else
       let \<sigma>1 = \<sigma>\<lparr>memory := execute_writes e task (memory \<sigma>)\<rparr> in
       case execute e task of
         Throws err \<Rightarrow>
           (Some err, updateAgentStatus \<sigma>1 (t_agentType task) AgentError
                        (Some (error_message err)))
       | Returns result \<Rightarrow>
           let p = project \<sigma>1;
               \<sigma>2 =
                 (if r_success result
                  then emitEvent (FindingDiscovered (t_agentType task)
                                    (length (r_findings result)) (r_insights result))
                         (\<sigma>1\<lparr>project := p\<lparr>p_findings := p_findings p @ r_findings result,
                                p_totalTokensUsed := p_totalTokensUsed p + r_tokensUsed result\<rparr>\<rparr>)
                  else emitEvent (AgentErrorEvent (t_agentType task) (r_error result))
                         (\<sigma>1\<lparr>project := p\<lparr>p_errors := p_errors p @
                              [\<lparr>e_id = uuidv4 e (uuid_count \<sigma>1), e_projectId = p_id p,
                                e_agentId = Some (agentId e (t_agentType task)),
                                e_type = ''internal'',
                                e_message = (case or_null (r_error result) of
                                               None \<Rightarrow> ''Unknown error'' | Some m \<Rightarrow> m),
                                e_recoverable = True\<rparr>]\<rparr>,
                              uuid_count := Suc (uuid_count \<sigma>1)\<rparr>))
           in (None, updateAgentStatus \<sigma>2 (t_agentType task)
                       (if r_success result then AgentCompleted else AgentError)
                       (if r_success result then None else r_error result)))"

subsection \<open>Batches\<close>

text \<open>
  A batch interleaves the dispatch loop of \<open>executeTaskBatch\<close> with the ends of agent runs,
  the timer of \<open>waitForAvailableSlot\<close> and calls of \<open>pauseProject\<close> from outside. The
  interleaving is an argument: a list of choices. \<open>Admit\<close> is one pass of the \<open>for\<close> body
  when the \<open>while\<close> condition is false; \<open>Poll\<close> is the timer of a waiting loop firing;
  \<open>Finish i\<close> is the end of the agent run of the \<open>i\<close>-th task in flight, with the \<open>then\<close> and
  \<open>finally\<close> callbacks attached to its promise; \<open>Pause\<close> is a call of \<open>pauseProject\<close>.
  A choice that the program cannot take in the state gives \<open>None\<close>, as does a list that ends
  before \<open>Promise.all\<close> is settled.

  The loop runs without interruption until it awaits: in the \<open>while\<close> loop, when the set is
  at the cap, or on \<open>Promise.all\<close>, when every task is dispatched. Only then can an agent
  run end or \<open>pauseProject\<close> be called. A loop that waits for a slot goes on waiting until its
  timer fires, also when the set has dropped below the cap in the meantime (\<open>b_waiting\<close>);
  it then reads the size of the set again. The promise of a task whose agent type is not
  registered is rejected from the start, and that rejection is handled at the first await,
  before anything else.

  The promise of a task has no rejection handler until \<open>Promise.all\<close> is called. A rejection
  before that, while tasks are still to be dispatched, is an unhandled rejection, on which
  the process ends (no listener for it is installed): \<open>b_exit\<close>.
\<close>

datatype choice = Admit | Poll | Finish nat | Pause string

record batch =
  b_pending :: "task_definition list"
  b_total :: nat
  b_name :: string
  b_completed :: nat
  b_rejected :: "js_exception option"
  b_exit :: "js_exception option"
  b_waiting :: bool

definition at_cap :: "orchestrator \<Rightarrow> bool" where
  "at_cap \<sigma> = size_ge (length (runningTasks \<sigma>)) (maxConcurrentAgents \<sigma>)"

definition loop_awaits :: "orchestrator \<times> batch \<Rightarrow> bool" where
  "loop_awaits s = (case s of (\<sigma>, b) \<Rightarrow> b_pending b = [] \<or> b_waiting b \<or> at_cap \<sigma>)"

fun first_unregistered :: "task_definition list \<Rightarrow> nat option" where
  "first_unregistered [] = None"
| "first_unregistered (t # ts) =
     (if t_agentType t \<notin> set agent_types then Some 0
      else map_option Suc (first_unregistered ts))"

definition admit_task ::
  "task_definition \<Rightarrow> orchestrator \<Rightarrow> orchestrator" where
  "admit_task task \<sigma> =
     (executeTask_start task \<sigma>)\<lparr>runningTasks := set_add (t_id task) (runningTasks \<sigma>),
                                  inflight := inflight \<sigma> @ [task]\<rparr>"

definition finish_task ::
  "env \<Rightarrow> nat \<Rightarrow> orchestrator \<times> batch \<Rightarrow> orchestrator \<times> batch" where
  "finish_task e i s =
    (case s of (\<sigma>, b) \<Rightarrow>
      let task = inflight \<sigma> ! i;
          \<sigma>0 = \<sigma>\<lparr>inflight := take i (inflight \<sigma>) @ drop (Suc i) (inflight \<sigma>)\<rparr>;
          (thrown, \<sigma>1) = executeTask_resume e task \<sigma>0;
          (\<sigma>2, b2) =
            (case thrown of
               None \<Rightarrow>
                 (emitEvent (AgentProgress (b_name b) (Suc (b_completed b)) (b_total b)) \<sigma>1,
                  b\<lparr>b_completed := Suc (b_completed b)\<rparr>)
             | Some err \<Rightarrow>
                 (\<sigma>1, if b_pending b \<noteq> [] then b\<lparr>b_exit := Some err\<rparr>
                      else b\<lparr>b_rejected := (case b_rejected b of None \<Rightarrow> Some err
                                                              | Some first \<Rightarrow> Some first)\<rparr>))
      in (\<sigma>2\<lparr>runningTasks := set_delete (t_id task) (runningTasks \<sigma>2)\<rparr>,
          b2\<lparr>b_waiting := (b_pending b \<noteq> [])\<rparr>))"

definition batch_step ::
  "env \<Rightarrow> choice \<Rightarrow> orchestrator \<times> batch \<Rightarrow> (orchestrator \<times> batch) option" where
  "batch_step e c s =
    (case s of (\<sigma>, b) \<Rightarrow>
      if b_exit b \<noteq> None then None
      else
      (case c of
         Admit \<Rightarrow>
           (case b_pending b of
              [] \<Rightarrow> None
            | task # rest \<Rightarrow>
                if b_waiting b \<or> at_cap \<sigma> then None
                else Some (admit_task task \<sigma>, b\<lparr>b_pending := rest\<rparr>))
       | Poll \<Rightarrow>
           if b_pending b \<noteq> [] \<and> (b_waiting b \<or> at_cap \<sigma>) \<and>
              first_unregistered (inflight \<sigma>) = None
           then Some (\<sigma>, b\<lparr>b_waiting := False\<rparr>) else None
       | Finish i \<Rightarrow>
           if i < length (inflight \<sigma>) \<and> loop_awaits (\<sigma>, b) \<and>
              (first_unregistered (inflight \<sigma>) = None \<or>
               first_unregistered (inflight \<sigma>) = Some i)
           then Some (finish_task e i (\<sigma>, b)) else None
       | Pause projectId \<Rightarrow>
           if loop_awaits (\<sigma>, b) \<and> first_unregistered (inflight \<sigma>) = None
           then Some (pauseProject \<sigma> projectId, b\<lparr>b_waiting := (b_pending b \<noteq> [])\<rparr>)
           else None))"

text \<open>
  \<open>Promise.all(results)\<close> is awaited once every task is dispatched. It is rejected when one
  of the promises is, and fulfilled when all are. Nothing follows the end of the process.
\<close>

definition batch_settled :: "orchestrator \<times> batch \<Rightarrow> bool" where
  "batch_settled s = (case s of (\<sigma>, b) \<Rightarrow>
     b_exit b \<noteq> None \<or>
     (b_pending b = [] \<and> (b_rejected b \<noteq> None \<or> inflight \<sigma> = [])))"

fun batch_loop ::
  "env \<Rightarrow> choice list \<Rightarrow> orchestrator \<times> batch \<Rightarrow>
     ((orchestrator \<times> batch) \<times> choice list) option" where
  "batch_loop e [] s = (if batch_settled s then Some (s, []) else None)"
| "batch_loop e (c # cs) s =
     (if batch_settled s then Some (s, c # cs)
      else (case batch_step e c s of None \<Rightarrow> None | Some s' \<Rightarrow> batch_loop e cs s'))"

text \<open>The state reached by taking a list of choices, each possible in its turn.\<close>

fun batch_run ::
  "env \<Rightarrow> choice list \<Rightarrow> orchestrator \<times> batch \<Rightarrow> (orchestrator \<times> batch) option" where
  "batch_run e [] s = Some s"
| "batch_run e (c # cs) s =
     (case batch_step e c s of None \<Rightarrow> None | Some s' \<Rightarrow> batch_run e cs s')"

definition new_batch :: "task_definition list \<Rightarrow> string \<Rightarrow> batch" where
  "new_batch tasks batchName =
     \<lparr>b_pending = tasks, b_total = length tasks, b_name = batchName, b_completed = 0,
      b_rejected = None, b_exit = None, b_waiting = False\<rparr>"

text \<open>
  The result of \<open>executeTaskBatch\<close>: whether its promise is fulfilled or rejected, or the
  process ends before; the state at that moment and the choices not yet taken.
\<close>

datatype batch_outcome = Fulfilled | Rejected js_exception | ProcessExit js_exception

definition outcome_of :: "batch \<Rightarrow> batch_outcome" where
  "outcome_of b =
    (case b_exit b of
       Some err \<Rightarrow> ProcessExit err
     | None \<Rightarrow> (case b_rejected b of Some err \<Rightarrow> Rejected err | None \<Rightarrow> Fulfilled))"

definition executeTaskBatch ::
  "env \<Rightarrow> choice list \<Rightarrow> orchestrator \<Rightarrow> task_definition list \<Rightarrow> string \<Rightarrow>
     (batch_outcome \<times> orchestrator \<times> choice list) option" where
  "executeTaskBatch e cs \<sigma> tasks batchName =
    (case batch_loop e cs (\<sigma>, new_batch tasks batchName) of
       None \<Rightarrow> None
     | Some ((\<sigma>', b'), cs') \<Rightarrow> Some (outcome_of b', \<sigma>', cs'))"

subsection \<open>Phases\<close>

text \<open>
  The result of a phase: the exception that leaves it, if any, the state at that moment
  and the choices not yet taken. It is \<open>None\<close> when the phase does not return: the process
  has ended, or the list of choices ends or is not possible.
\<close>

definition executePrimaryResearch ::
  "env \<Rightarrow> choice list \<Rightarrow> orchestrator \<Rightarrow>
     (js_exception option \<times> orchestrator \<times> choice list) option" where
  "executePrimaryResearch e cs \<sigma> =
    (let \<sigma>1 = updateProjectStatus \<sigma> Researching 15 ''Executing primary research'';
         primaryTasks = filter (\<lambda>t. t_agentType t = ''web_researcher'' \<and> t_dependencies t = [])
                          (taskQueue \<sigma>1)
     in case executeTaskBatch e cs \<sigma>1 primaryTasks ''Primary research'' of
          None \<Rightarrow> None
        | Some (ProcessExit err, \<sigma>2, cs') \<Rightarrow> None
        | Some (Rejected err, \<sigma>2, cs') \<Rightarrow> Some (Some err, \<sigma>2, cs')
        | Some (Fulfilled, \<sigma>2, cs') \<Rightarrow>
            Some (None, updateProjectStatus \<sigma>2 Researching 40 ''Primary research completed'', cs'))"

definition executeDeepAnalysis ::
  "env \<Rightarrow> choice list \<Rightarrow> orchestrator \<Rightarrow>
     (js_exception option \<times> orchestrator \<times> choice list) option" where
  "executeDeepAnalysis e cs \<sigma> =
    (let \<sigma>1 = updateProjectStatus \<sigma> Analyzing 45 ''Executing deep analysis'';
         analysisTasks = filter (\<lambda>t. t_agentType t = ''financial_analyst'' \<or>
                                     t_agentType t = ''competitive_intelligence'') (taskQueue \<sigma>1)
     in case executeTaskBatch e cs \<sigma>1 analysisTasks ''Deep analysis'' of
          None \<Rightarrow> None
        | Some (ProcessExit err, \<sigma>2, cs') \<Rightarrow> None
        | Some (Rejected err, \<sigma>2, cs') \<Rightarrow> Some (Some err, \<sigma>2, cs')
        | Some (Fulfilled, \<sigma>2, cs') \<Rightarrow>
            Some (None, updateProjectStatus \<sigma>2 Analyzing 70 ''Deep analysis completed'', cs'))"

text \<open>
  While \<open>generateReport\<close> awaits the report agent the only steps of the orchestrator are
  calls of \<open>pauseProject\<close>: the leading \<open>Pause\<close> choices.
\<close>

fun pauses :: "choice list \<Rightarrow> orchestrator \<Rightarrow> orchestrator \<times> choice list" where
  "pauses (Pause projectId # cs) \<sigma> = pauses cs (pauseProject \<sigma> projectId)"
| "pauses cs \<sigma> = (\<sigma>, cs)"

definition generateReport ::
  "env \<Rightarrow> choice list \<Rightarrow> orchestrator \<Rightarrow> js_exception option \<times> orchestrator \<times> choice list" where
  "generateReport e cs \<sigma> =
    (let \<sigma>1 = updateProjectStatus \<sigma> Synthesizing 75 ''Generating research report'';
         \<sigma>2 = updateAgentStatus \<sigma>1 ''report_generator'' AgentActive
                (Some ''Generating final report'');
         (\<sigma>3, cs') = pauses cs \<sigma>2;
         \<sigma>4 = \<sigma>3\<lparr>memory := report_writes e (memory \<sigma>3)\<rparr>
     in case report_execute e of
          Throws err \<Rightarrow> (Some err, \<sigma>4, cs')
        | Returns result \<Rightarrow>
            let \<sigma>5 =
              (if r_success result
               then
                 let p = project \<sigma>4;
                     \<sigma>r = (case find (\<lambda>f. f_category f = ''final_report'') (r_findings result) of
                             None \<Rightarrow> \<sigma>4
                           | Some reportFinding \<Rightarrow>
                               \<sigma>4\<lparr>project := p\<lparr>p_report := Some
                                 (if json_parses e (f_content reportFinding)
                                  then ParsedReport (f_content reportFinding)
                                  else FallbackReport
                                    \<lparr>rp_id = f_id reportFinding, rp_projectId = p_id p,
                                     rp_title = f_title reportFinding,
                                     rp_executiveSummary = f_summary reportFinding,
                                     rp_keyInsights = r_insights result,
                                     rp_wordCount = length (f_content reportFinding),
                                     rp_sourcesCount = length (r_sources result)\<rparr>)\<rparr>\<rparr>);
                     \<sigma>s = updateAgentStatus \<sigma>r ''report_generator'' AgentCompleted None
                 in emitEvent (ReportCompleted (p_report (project \<sigma>s))) \<sigma>s
               else updateAgentStatus \<sigma>4 ''report_generator'' AgentError
                      (Some (case or_null (r_error result) of
                               None \<Rightarrow> ''Unknown error'' | Some m \<Rightarrow> m)))
            in (None, updateProjectStatus \<sigma>5 Synthesizing 90 ''Report generated'', cs'))"

text \<open>
  \<open>cleanExpiredMemories\<close> deletes rows of \<open>memory_entries\<close> only, a table that is not
  modelled, so its call in \<open>finalizeProject\<close> changes nothing here.
\<close>

definition finalizeProject :: "orchestrator \<Rightarrow> orchestrator" where
  "finalizeProject \<sigma> =
    (let \<sigma>1 = updateProjectStatus \<sigma> Reviewing 95 ''Finalizing project'';
         pid = p_id (project \<sigma>1);
         (found, d1) = getFindings (memory \<sigma>1) pid None;
         srcs = getSources d1 pid;
         \<sigma>2 = \<sigma>1\<lparr>project := (project \<sigma>1)\<lparr>p_findings := found,
                                            p_totalSources := int (length srcs)\<rparr>,
                 memory := updateProjectStatus_db d1 pid ''completed''\<rparr>
     in emitEvent ProjectCompleted
          (updateProjectStatus \<sigma>2 Completed 100 ''Research completed''))"

subsection \<open>The workflow\<close>

text \<open>
  \<open>workflow_phases\<close> is the body of the \<open>try\<close> block of \<open>executeWorkflow\<close>: the exception that
  leaves it, if any, and the state at that moment. \<open>executeWorkflow\<close> adds the \<open>catch\<close>
  clause. Both are \<open>None\<close> when a batch does not return.
\<close>

definition workflow_phases ::
  "env \<Rightarrow> choice list \<Rightarrow> orchestrator \<Rightarrow> (js_exception option \<times> orchestrator) option" where
  "workflow_phases e cs \<sigma> =
    (case planResearch e \<sigma> of
       (Some err, \<sigma>0) \<Rightarrow> Some (Some err, \<sigma>0)
     | (None, \<sigma>0) \<Rightarrow>
    (case executePrimaryResearch e cs \<sigma>0 of
       None \<Rightarrow> None
     | Some (Some err, \<sigma>1, cs1) \<Rightarrow> Some (Some err, \<sigma>1)
     | Some (None, \<sigma>1, cs1) \<Rightarrow>
         (case executeDeepAnalysis e cs1 \<sigma>1 of
            None \<Rightarrow> None
          | Some (Some err, \<sigma>2, cs2) \<Rightarrow> Some (Some err, \<sigma>2)
          | Some (None, \<sigma>2, cs2) \<Rightarrow>
              (case generateReport e cs2 \<sigma>2 of
                 (Some err, \<sigma>3, cs3) \<Rightarrow> Some (Some err, \<sigma>3)
               | (None, \<sigma>3, cs3) \<Rightarrow> Some (None, finalizeProject \<sigma>3)))))"

definition executeWorkflow :: "env \<Rightarrow> choice list \<Rightarrow> orchestrator \<Rightarrow> orchestrator option" where
  "executeWorkflow e cs \<sigma> =
    (case workflow_phases e cs \<sigma> of
       None \<Rightarrow> None
     | Some (Some err, \<sigma>') \<Rightarrow> Some (handleProjectError e \<sigma>' err)
     | Some (None, \<sigma>') \<Rightarrow> Some \<sigma>')"

text \<open>
  The constructor and \<open>startProject\<close>, up to the call of \<open>executeWorkflow\<close>: the state in
  which the workflow starts, or the exception of \<open>createProject\<close>.
\<close>

definition startProject ::
  "env \<Rightarrow> js_number option \<Rightarrow> db \<Rightarrow> scoping_document \<Rightarrow> db_error + orchestrator" where
  "startProject e configured d scopingDocument =
    (let projectId = str_or (sd_id scopingDocument) (uuidv4 e 0);
         n = (if sd_id scopingDocument = [] then 1 else 0)
     in case createProject d projectId (sd_projectName scopingDocument)
               (sd_targetCompany_name scopingDocument)
               \<lparr>so_json = json_stringify e scopingDocument,
                so_keyQuestions = Some (sd_keyQuestions scopingDocument)\<rparr> of
          (Inl err, d') \<Rightarrow> Inl err
        | (Inr u, d') \<Rightarrow> Inr
            \<lparr>maxConcurrentAgents = config_maxConcurrentAgents configured,
             memory = d',
             project = \<lparr>p_id = projectId, p_scopingDocument = scopingDocument,
                        p_status = Initializing, p_progress = 0,
                        p_currentPhase = ''Initializing research workflow'',
                        p_agents = createAgentStatuses, p_findings = [], p_report = None,
                        p_errors = [], p_totalTokensUsed = 0, p_totalSearches = 0,
                        p_totalSources = 0\<rparr>,
             taskQueue = [], runningTasks = [], inflight = [],
             events = [ProjectCreated], uuid_count = n\<rparr>)"

subsection \<open>Runs of the shared orchestrator\<close>

text \<open>
  The orchestrator is a singleton, and \<open>runningTasks\<close> is shared by the dispatch loops of all
  the batches it runs, of whatever project. A run of the orchestrator is a list of steps:
  each is the step of one dispatch loop, given with that loop's own state, or one of the
  other operations of a workflow.
\<close>

datatype step =
    LoopStep choice batch
  | PlanResearch
  | UpdateProjectStatus research_status int string
  | GenerateReport "choice list"
  | FinalizeProject
  | HandleProjectError js_exception

definition orchestrator_step :: "env \<Rightarrow> step \<Rightarrow> orchestrator \<Rightarrow> orchestrator option" where
  "orchestrator_step e s \<sigma> =
    (case s of
       LoopStep c b \<Rightarrow> map_option fst (batch_step e c (\<sigma>, b))
     | PlanResearch \<Rightarrow> Some (snd (planResearch e \<sigma>))
     | UpdateProjectStatus status progress phase \<Rightarrow>
         Some (updateProjectStatus \<sigma> status progress phase)
     | GenerateReport cs \<Rightarrow> Some (fst (snd (generateReport e cs \<sigma>)))
     | FinalizeProject \<Rightarrow> Some (finalizeProject \<sigma>)
     | HandleProjectError err \<Rightarrow> Some (handleProjectError e \<sigma> err))"

fun orchestrator_run :: "env \<Rightarrow> step list \<Rightarrow> orchestrator \<Rightarrow> orchestrator option" where
  "orchestrator_run e [] \<sigma> = Some \<sigma>"
| "orchestrator_run e (s # rest) \<sigma> =
     (case orchestrator_step e s \<sigma> of
        None \<Rightarrow> None
      | Some \<sigma>' \<Rightarrow> orchestrator_run e rest \<sigma>')"

text \<open>The progress values of the \<open>project:updated\<close> events, in the order of emission.\<close>

fun progress_values :: "event list \<Rightarrow> int list" where
  "progress_values [] = []"
| "progress_values (ProjectUpdated status (Some progress) phase # evs) =
     progress # progress_values evs"
| "progress_values (ev # evs) = progress_values evs"

text \<open>The status values of the \<open>project:updated\<close> events, in the order of emission.\<close>

fun status_values :: "event list \<Rightarrow> research_status list" where
  "status_values [] = []"
| "status_values (ProjectUpdated status progress phase # evs) = status # status_values evs"
| "status_values (ev # evs) = status_values evs"








section \<open>Example inputs\<close>

definition example_context_db :: db where
  "example_context_db = \<lparr>foreign_keys = True,
     projects = [\<lparr>pr_id = ''p1'', pr_name = ''Acme study'', pr_target_company = ''Acme'',
                  pr_status = ''pending'', pr_scoping_document = ''{}''\<rparr>],
     findings = [], sources = [],
     shared_context = [\<lparr>sc_project_id = ''p1'', sc_target_company = ''Acme'',
        sc_key_questions = [], sc_completed_tasks = [''a''],
        sc_pending_tasks = [''t'', ''b'', ''t''], sc_discovered_insights = [''i'']\<rparr>]\<rparr>"

definition example_scoping_object :: scoping_object where
  "example_scoping_object = \<lparr>so_json = ''{}'', so_keyQuestions = None\<rparr>"

definition example_finding :: "string \<Rightarrow> string \<Rightarrow> string \<Rightarrow> int \<Rightarrow> research_finding" where
  "example_finding ident projectId questionId created =
     \<lparr>f_id = ident, f_projectId = projectId, f_questionId = questionId,
      f_agentId = ''agent-1'', f_agentType = ''web_researcher'', f_category = ''general'',
      f_title = ''title'', f_content = ''content'', f_summary = ''summary'',
      f_confidence = ''medium'', f_sources = [], f_relatedFindings = [],
      f_discoveredAt = created, f_lastUpdated = created\<rparr>"

definition example_findings_db :: db where
  "example_findings_db = \<lparr>foreign_keys = True,
     projects = [\<lparr>pr_id = ''p1'', pr_name = ''Acme study'', pr_target_company = ''Acme'',
                  pr_status = ''pending'', pr_scoping_document = ''{}''\<rparr>],
     findings = [example_finding ''f1'' ''p1'' ''q1'' 10,
                 example_finding ''f2'' ''p1'' ''q2'' 30,
                 example_finding ''f3'' ''p2'' ''q1'' 40,
                 example_finding ''f4'' ''p1'' ''q1'' 20],
     sources = [], shared_context = []\<rparr>"

definition example_source :: "string \<Rightarrow> rat \<Rightarrow> source" where
  "example_source ident score =
     \<lparr>s_id = ident, s_type = ''web'', s_url = Some '''', s_title = ''title'', s_author = None,
      s_publishedDate = None, s_accessedAt = ''2024-01-01'', s_relevanceScore = score,
      s_snippet = None, s_metadata = None\<rparr>"

definition example_sources_db :: db where
  "example_sources_db = \<lparr>foreign_keys = False, projects = [], findings = [],
     sources = [\<lparr>sr_project_id = ''p1'', sr_source = example_source ''s1'' (1/2)\<rparr>,
                \<lparr>sr_project_id = ''p1'', sr_source = example_source ''s2'' (9/10)\<rparr>],
     shared_context = []\<rparr>"

definition example_result :: "bool \<Rightarrow> research_finding list \<Rightarrow> string option \<Rightarrow> agent_result" where
  "example_result ok found err =
     \<lparr>r_success = ok, r_findings = found, r_sources = [], r_insights = [], r_error = err,
      r_tokensUsed = 10\<rparr>"

text \<open>
  An environment in which the web researcher succeeds with one finding, the competitive
  intelligence agent returns \<open>success = false\<close>, the financial analyst throws, and the
  report generator succeeds without a report finding.
\<close>

definition example_env :: env where
  "example_env =
     \<lparr>uuidv4 = (\<lambda>n. ''id-'' @ replicate n (CHR ''i'')),
      execute = (\<lambda>t. if t_agentType t = ''web_researcher''
                       then Returns (example_result True
                              [example_finding (t_id t) ''p1'' ''q1'' 0] None)
                       else if t_agentType t = ''competitive_intelligence''
                       then Returns (example_result False [] (Some ''rate_limited''))
                       else Throws (Error ''boom'')),
      execute_writes = (\<lambda>t d. d),
      report_execute = Returns (example_result True [] None),
      report_writes = (\<lambda>d. d),
      agentId = (\<lambda>a. ''agent-'' @ a),
      json_stringify = (\<lambda>d. ''{}''),
      json_parses = (\<lambda>s. False)\<rparr>"

definition example_question :: "string \<Rightarrow> string \<Rightarrow> string \<Rightarrow> key_question" where
  "example_question ident priority category =
     \<lparr>kq_id = ident, kq_question = ''Question '' @ ident, kq_priority = Some priority,
      kq_category = category, kq_subQuestions = None\<rparr>"

definition example_document :: "key_question list \<Rightarrow> bool \<Rightarrow> scoping_document" where
  "example_document questions flags =
     \<lparr>sd_id = ''p1'', sd_projectName = ''Acme study'', sd_targetCompany_name = ''Acme'',
      sd_keyQuestions = questions, sd_webSearch = flags, sd_financialReports = flags\<rparr>"

text \<open>The state in which \<open>startProject\<close> leaves a new orchestrator over an empty store.\<close>

definition example_start :: "scoping_document \<Rightarrow> rat \<Rightarrow> orchestrator" where
  "example_start doc cap =
     \<lparr>maxConcurrentAgents = Num cap,
      memory = \<lparr>foreign_keys = True,
        projects = [\<lparr>pr_id = ''p1'', pr_name = ''Acme study'', pr_target_company = ''Acme'',
                     pr_status = ''pending'', pr_scoping_document = ''{}''\<rparr>],
        findings = [], sources = [],
        shared_context = [\<lparr>sc_project_id = ''p1'', sc_target_company = ''Acme'',
           sc_key_questions = sd_keyQuestions doc, sc_completed_tasks = [],
           sc_pending_tasks = [], sc_discovered_insights = []\<rparr>]\<rparr>,
      project = \<lparr>p_id = ''p1'', p_scopingDocument = doc,
                 p_status = Initializing, p_progress = 0,
                 p_currentPhase = ''Initializing research workflow'',
                 p_agents = createAgentStatuses, p_findings = [], p_report = None,
                 p_errors = [], p_totalTokensUsed = 0, p_totalSearches = 0,
                 p_totalSources = 0\<rparr>,
      taskQueue = [], runningTasks = [], inflight = [],
      events = [ProjectCreated], uuid_count = 0\<rparr>"

definition example_task :: "string \<Rightarrow> string \<Rightarrow> task_definition" where
  "example_task ident agentType =
     \<lparr>t_id = ident, t_agentType = agentType,
      t_context = \<lparr>c_projectId = ''p1'', c_targetCompany = ''Acme'', c_questionId = Some ''q1'',
                   c_question = Some ''Question q1'', c_additionalContext = None\<rparr>,
      t_priority = Value 2, t_dependencies = []\<rparr>"

definition example_plan_document :: scoping_document where
  "example_plan_document = example_document
     [example_question ''q1'' ''low'' ''leadership'',
      example_question ''q2'' ''critical'' ''financial''] True"

definition example_batch_start :: orchestrator where
  "example_batch_start = example_start (example_document [] False) 2"

definition example_batch_tasks :: "task_definition list" where
  "example_batch_tasks = [example_task ''t1'' ''web_researcher'',
     example_task ''t2'' ''financial_analyst'', example_task ''t3'' ''competitive_intelligence'']"

text \<open>
  A project with one critical market question and no whole-project tasks: the primary
  batch holds the web researcher's task, the analysis batch the task of the competitive
  intelligence agent.
\<close>

definition example_market_start :: orchestrator where
  "example_market_start =
     example_start (example_document [example_question ''q1'' ''critical'' ''market''] False) 2"





section \<open>Properties of the shared store\<close>

lemma mset_order_by_desc: "mset (order_by_desc k rows) = mset rows"
  by (simp add: order_by_desc_def)

lemma set_order_by_desc: "set (order_by_desc k rows) = set rows"
  by (simp add: order_by_desc_def)

lemma sorted_order_by_desc: "sorted_wrt (\<lambda>a b. k b \<le> k a) (order_by_desc k rows)"
proof -
  have "sorted (map k (sort_key k (rev rows)))" by simp
  then have "sorted_wrt (\<lambda>a b. k a \<le> k b) (sort_key k (rev rows))"
    by (simp add: sorted_wrt_map)
  then show ?thesis
    unfolding order_by_desc_def by (simp add: sorted_wrt_rev)
qed

lemma find_map_same:
  assumes "\<And>r. sc_project_id (g r) = sc_project_id r"
  shows "find (\<lambda>r. sc_project_id r = p) (map (\<lambda>r. if sc_project_id r = p then g r else r) rows)
       = map_option g (find (\<lambda>r. sc_project_id r = p) rows)"
  using assms by (induction rows) auto

lemma find_map_other:
  assumes "\<And>r. sc_project_id (g r) = sc_project_id r" and "q \<noteq> p"
  shows "find (\<lambda>r. sc_project_id r = q) (map (\<lambda>r. if sc_project_id r = p then g r else r) rows)
       = find (\<lambda>r. sc_project_id r = q) rows"
  using assms by (induction rows) auto

lemma updateSharedContext_get_same:
  "getSharedContext d p = Some c \<Longrightarrow>
   getSharedContext (updateSharedContext d p u) p = Some
     (c\<lparr>ctx_targetCompany :=
          (case or_null (u_targetCompany u) of None \<Rightarrow> ctx_targetCompany c | Some t \<Rightarrow> t),
        ctx_keyQuestions := list_or (u_keyQuestions u) (ctx_keyQuestions c),
        ctx_completedTasks := list_or (u_completedTasks u) (ctx_completedTasks c),
        ctx_pendingTasks := list_or (u_pendingTasks u) (ctx_pendingTasks c),
        ctx_discoveredInsights := list_or (u_discoveredInsights u) (ctx_discoveredInsights c)\<rparr>)"
  unfolding updateSharedContext_def
  by (auto simp add: getSharedContext_def find_map_same getSources_def split: option.splits)

lemma updateSharedContext_get_other:
  "q \<noteq> p \<Longrightarrow> getSharedContext (updateSharedContext d p u) q = getSharedContext d q"
  unfolding updateSharedContext_def
  by (simp add: getSharedContext_def find_map_other getSources_def split: option.splits)

lemma updateSharedContext_frame:
  "projects (updateSharedContext d p u) = projects d \<and>
   findings (updateSharedContext d p u) = findings d \<and>
   sources (updateSharedContext d p u) = sources d \<and>
   foreign_keys (updateSharedContext d p u) = foreign_keys d"
  unfolding updateSharedContext_def by (simp split: option.splits)

text \<open>
  C10. For a project that has a shared context, \<open>addCompletedTask\<close> appends the
  description to the completed tasks and removes every pending task equal to it; the
  target company, the key questions, the discovered insights and the source registry stay
  as they were, as do the contexts of other projects and the other tables. For a project
  without a shared context it leaves the database as it is (and has no branch that raises).
\<close>

theorem addCompletedTask_spec:
  "(getSharedContext d p = None \<longrightarrow> addCompletedTask d p t = d) \<and>
   (\<forall>c. getSharedContext d p = Some c \<longrightarrow>
      getSharedContext (addCompletedTask d p t) p =
        Some (c\<lparr>ctx_completedTasks := ctx_completedTasks c @ [t],
                ctx_pendingTasks := filter (\<lambda>x. x \<noteq> t) (ctx_pendingTasks c)\<rparr>)) \<and>
   (\<forall>q. q \<noteq> p \<longrightarrow> getSharedContext (addCompletedTask d p t) q = getSharedContext d q) \<and>
   projects (addCompletedTask d p t) = projects d \<and>
   findings (addCompletedTask d p t) = findings d \<and>
   sources (addCompletedTask d p t) = sources d"
proof (cases "getSharedContext d p")
  case None
  then show ?thesis by (simp add: addCompletedTask_def)
next
  case (Some c)
  have eq: "addCompletedTask d p t = updateSharedContext d p
      (no_updates\<lparr>u_completedTasks := Some (ctx_completedTasks c @ [t]),
                  u_pendingTasks := Some (filter (\<lambda>x. x \<noteq> t) (ctx_pendingTasks c))\<rparr>)"
    using Some by (simp add: addCompletedTask_def)
  show ?thesis
    unfolding eq using Some
    by (simp add: updateSharedContext_get_same updateSharedContext_get_other
        updateSharedContext_frame no_updates_def list_or_def or_null_def)
qed

lemma example_context: "getSharedContext example_context_db ''p1'' = Some
    \<lparr>ctx_projectId = ''p1'', ctx_targetCompany = ''Acme'', ctx_keyQuestions = [],
     ctx_completedTasks = [''a''], ctx_pendingTasks = [''t'', ''b'', ''t''],
     ctx_discoveredInsights = [''i''], ctx_sourceRegistry = Map.empty\<rparr>"
  by (simp add: getSharedContext_def example_context_db_def getSources_def order_by_desc_def)

lemma example_context_missing: "getSharedContext example_context_db ''p2'' = None"
  by (simp add: getSharedContext_def example_context_db_def)

theorem addCompletedTask_spec_witness:
  "getSharedContext example_context_db ''p2'' = None \<and>
   addCompletedTask example_context_db ''p2'' ''t'' = example_context_db \<and>
   getSharedContext (addCompletedTask example_context_db ''p1'' ''t'') ''p1'' = Some
    \<lparr>ctx_projectId = ''p1'', ctx_targetCompany = ''Acme'', ctx_keyQuestions = [],
     ctx_completedTasks = [''a'', ''t''], ctx_pendingTasks = [''b''],
     ctx_discoveredInsights = [''i''], ctx_sourceRegistry = Map.empty\<rparr> \<and>
   getSharedContext (addCompletedTask example_context_db ''p1'' ''t'') ''p2'' = None"
  using addCompletedTask_spec [of example_context_db "''p1''" "''t''"]
    addCompletedTask_spec [of example_context_db "''p2''" "''t''"]
  by (simp add: example_context example_context_missing)

lemma find_key_None_iff: "find (\<lambda>r. f r = p) xs = None \<longleftrightarrow> p \<notin> f ` set xs"
  by (induction xs) auto

lemma getSharedContext_None_iff:
  "getSharedContext d p = None \<longleftrightarrow> p \<notin> sc_project_id ` set (shared_context d)"
proof (cases "find (\<lambda>r. sc_project_id r = p) (shared_context d)")
  case None
  then show ?thesis
    using find_key_None_iff [of sc_project_id p "shared_context d"]
    by (simp add: getSharedContext_def)
next
  case (Some row)
  then show ?thesis
    using find_key_None_iff [of sc_project_id p "shared_context d"]
    by (simp add: getSharedContext_def)
qed

lemma find_append_new:
  "find P xs = None \<Longrightarrow> P x \<Longrightarrow> find P (xs @ [x]) = Some x"
  by (induction xs) (auto split: if_splits)

lemma createProject_exists:
  "project_exists d i \<Longrightarrow> createProject d i n t s = (Inl PrimaryKeyConstraint, d)"
  by (simp add: createProject_def)

lemma createProject_new:
  assumes "\<not> project_exists d i" and "getSharedContext d i = None"
  shows "createProject d i n t s = (Inr (),
      d\<lparr>projects := projects d @
          [\<lparr>pr_id = i, pr_name = n, pr_target_company = t, pr_status = ''pending'',
            pr_scoping_document = so_json s\<rparr>],
        shared_context := shared_context d @
          [\<lparr>sc_project_id = i, sc_target_company = t,
            sc_key_questions = (case so_keyQuestions s of None \<Rightarrow> [] | Some qs \<Rightarrow> qs),
            sc_completed_tasks = [], sc_pending_tasks = [], sc_discovered_insights = []\<rparr>]\<rparr>)"
  using assms by (simp add: createProject_def Let_def getSharedContext_None_iff)

text \<open>
  C9. \<open>createProject\<close> on an id that already has a project row raises the primary-key
  violation and leaves the database unchanged. On a new id it appends the project row and
  a shared context holding the target company, the key questions of the scoping input
  (none when the member is absent) and empty completed-task, pending-task and insight
  lists.
\<close>

theorem createProject_spec:
  "(project_exists d i \<longrightarrow> createProject d i n t s = (Inl PrimaryKeyConstraint, d)) \<and>
   (\<not> project_exists d i \<and> getSharedContext d i = None \<longrightarrow>
     (\<exists>d' c. createProject d i n t s = (Inr (), d') \<and>
        projects d' = projects d @
          [\<lparr>pr_id = i, pr_name = n, pr_target_company = t, pr_status = ''pending'',
            pr_scoping_document = so_json s\<rparr>] \<and>
        getSharedContext d' i = Some c \<and>
        ctx_projectId c = i \<and> ctx_targetCompany c = t \<and>
        ctx_keyQuestions c = (case so_keyQuestions s of None \<Rightarrow> [] | Some qs \<Rightarrow> qs) \<and>
        ctx_completedTasks c = [] \<and> ctx_pendingTasks c = [] \<and>
        ctx_discoveredInsights c = [] \<and>
        findings d' = findings d \<and> sources d' = sources d))"
proof (intro conjI impI)
  assume "project_exists d i"
  then show "createProject d i n t s = (Inl PrimaryKeyConstraint, d)"
    by (rule createProject_exists)
next
  assume a: "\<not> project_exists d i \<and> getSharedContext d i = None"
  then have none: "find (\<lambda>r. sc_project_id r = i) (shared_context d) = None"
    by (simp add: getSharedContext_None_iff find_key_None_iff)
  show "\<exists>d' c. createProject d i n t s = (Inr (), d') \<and>
        projects d' = projects d @
          [\<lparr>pr_id = i, pr_name = n, pr_target_company = t, pr_status = ''pending'',
            pr_scoping_document = so_json s\<rparr>] \<and>
        getSharedContext d' i = Some c \<and>
        ctx_projectId c = i \<and> ctx_targetCompany c = t \<and>
        ctx_keyQuestions c = (case so_keyQuestions s of None \<Rightarrow> [] | Some qs \<Rightarrow> qs) \<and>
        ctx_completedTasks c = [] \<and> ctx_pendingTasks c = [] \<and>
        ctx_discoveredInsights c = [] \<and>
        findings d' = findings d \<and> sources d' = sources d"
    using a by (simp add: createProject_new getSharedContext_def find_append_new [OF none])
qed

theorem createProject_spec_witness:
  "project_exists example_context_db ''p1'' \<and>
   createProject example_context_db ''p1'' ''Other'' ''Other Inc'' example_scoping_object
     = (Inl PrimaryKeyConstraint, example_context_db) \<and>
   \<not> project_exists example_context_db ''p2'' \<and>
   getSharedContext example_context_db ''p2'' = None \<and>
   (\<exists>d' c. createProject example_context_db ''p2'' ''N'' ''T'' example_scoping_object = (Inr (), d') \<and>
      getSharedContext d' ''p2'' = Some c \<and> ctx_keyQuestions c = [] \<and> ctx_pendingTasks c = [])"
proof -
  have e1: "project_exists example_context_db ''p1''"
    by (simp add: project_exists_def example_context_db_def)
  have e2: "\<not> project_exists example_context_db ''p2''"
    by (simp add: project_exists_def example_context_db_def)
  have ks: "so_keyQuestions example_scoping_object = None"
    by (simp add: example_scoping_object_def)
  show ?thesis
    using createProject_spec [of example_context_db "''p1''" "''Other''" "''Other Inc''" example_scoping_object]
      createProject_spec [of example_context_db "''p2''" "''N''" "''T''" example_scoping_object]
      e1 e2 example_context_missing ks
    by auto
qed

lemma getFindings_rows:
  "fst (getFindings d p q) = order_by_desc f_discoveredAt
     (filter (\<lambda>r. f_projectId r = p \<and> (q = None \<or> q = Some [] \<or> q = Some (f_questionId r)))
        (findings d))"
proof (cases "or_null q")
  case None
  then have "q = None \<or> q = Some []"
    by (simp add: or_null_def split: option.splits if_splits)
  then show ?thesis
    using None by (auto simp add: getFindings_def)
next
  case (Some s)
  then have q: "q = Some s" and ne: "s \<noteq> []"
    by (simp_all add: or_null_def split: option.splits if_splits)
  have "filter (\<lambda>r. f_projectId r = p \<and> f_questionId r = s) (findings d) =
        filter (\<lambda>r. f_projectId r = p \<and> (q = None \<or> q = Some [] \<or> q = Some (f_questionId r)))
          (findings d)"
    using q ne by (intro filter_cong) auto
  then show ?thesis
    using Some by (simp add: getFindings_def)
qed

lemma getFindings_db: "snd (getFindings d p q) = d"
  by (simp add: getFindings_def Let_def)

text \<open>
  C7. \<open>getFindings\<close> returns the stored findings of the project, each as often as it is
  stored: all of them when no question id or the empty string is passed, those of the
  question when a non-empty question id is passed. The result is ordered by creation time,
  newest first; it is the empty list when the project has no findings; the call leaves the
  database unchanged, so that a second call returns the same list.
\<close>

theorem getFindings_spec:
  "getFindings d p q = (rows, d') \<Longrightarrow>
     d' = d \<and>
     (q = None \<or> q = Some [] \<longrightarrow>
        mset rows = mset (filter (\<lambda>r. f_projectId r = p) (findings d))) \<and>
     (\<forall>s. q = Some s \<and> s \<noteq> [] \<longrightarrow>
        mset rows = mset (filter (\<lambda>r. f_projectId r = p \<and> f_questionId r = s) (findings d))) \<and>
     sorted_wrt (\<lambda>a b. f_discoveredAt b \<le> f_discoveredAt a) rows \<and>
     ((\<forall>r\<in>set (findings d). f_projectId r \<noteq> p) \<longrightarrow> rows = []) \<and>
     getFindings d' p q = (rows, d')"
proof -
  assume a: "getFindings d p q = (rows, d')"
  have d: "d' = d" using a getFindings_db [of d p q] by simp
  have rows: "rows = order_by_desc f_discoveredAt
     (filter (\<lambda>r. f_projectId r = p \<and> (q = None \<or> q = Some [] \<or> q = Some (f_questionId r)))
        (findings d))"
    using a getFindings_rows [of d p q] by simp
  have all: "mset rows = mset (filter (\<lambda>r. f_projectId r = p) (findings d))"
    if "q = None \<or> q = Some []"
  proof -
    have "filter (\<lambda>r. f_projectId r = p \<and> (q = None \<or> q = Some [] \<or> q = Some (f_questionId r)))
          (findings d) = filter (\<lambda>r. f_projectId r = p) (findings d)"
      using that by (intro filter_cong) auto
    then show ?thesis by (simp only: rows mset_order_by_desc)
  qed
  have one: "mset rows = mset (filter (\<lambda>r. f_projectId r = p \<and> f_questionId r = s) (findings d))"
    if "q = Some s \<and> s \<noteq> []" for s
  proof -
    have "filter (\<lambda>r. f_projectId r = p \<and> (q = None \<or> q = Some [] \<or> q = Some (f_questionId r)))
          (findings d) = filter (\<lambda>r. f_projectId r = p \<and> f_questionId r = s) (findings d)"
      using that by (intro filter_cong) auto
    then show ?thesis by (simp only: rows mset_order_by_desc)
  qed
  have srt: "sorted_wrt (\<lambda>a b. f_discoveredAt b \<le> f_discoveredAt a) rows"
    unfolding rows by (rule sorted_order_by_desc)
  have emp: "rows = []" if "\<forall>r\<in>set (findings d). f_projectId r \<noteq> p"
  proof -
    have "filter (\<lambda>r. f_projectId r = p \<and> (q = None \<or> q = Some [] \<or> q = Some (f_questionId r)))
        (findings d) = []"
      using that by (simp add: filter_empty_conv)
    then show ?thesis by (simp add: rows order_by_desc_def)
  qed
  from d a all one srt emp show ?thesis by blast
qed

lemma example_getFindings_q1:
  "getFindings example_findings_db ''p1'' (Some ''q1'') =
    ([example_finding ''f4'' ''p1'' ''q1'' 20, example_finding ''f1'' ''p1'' ''q1'' 10],
     example_findings_db)"
  by (simp add: getFindings_def or_null_def example_findings_db_def example_finding_def
      order_by_desc_def)

lemma example_getFindings_all:
  "getFindings example_findings_db ''p1'' (Some []) =
    ([example_finding ''f2'' ''p1'' ''q2'' 30, example_finding ''f4'' ''p1'' ''q1'' 20,
      example_finding ''f1'' ''p1'' ''q1'' 10], example_findings_db)"
  by (simp add: getFindings_def or_null_def example_findings_db_def example_finding_def
      order_by_desc_def)

lemma example_getFindings_none:
  "getFindings example_findings_db ''p9'' None = ([], example_findings_db)"
  by (simp add: getFindings_def or_null_def example_findings_db_def example_finding_def
      order_by_desc_def)


theorem getFindings_spec_witness:
  "getFindings example_findings_db ''p1'' (Some ''q1'') =
     ([example_finding ''f4'' ''p1'' ''q1'' 20, example_finding ''f1'' ''p1'' ''q1'' 10],
      example_findings_db) \<and>
   mset [example_finding ''f4'' ''p1'' ''q1'' 20, example_finding ''f1'' ''p1'' ''q1'' 10] =
     mset (filter (\<lambda>r. f_projectId r = ''p1'' \<and> f_questionId r = ''q1'')
       (findings example_findings_db)) \<and>
   mset [example_finding ''f2'' ''p1'' ''q2'' 30, example_finding ''f4'' ''p1'' ''q1'' 20,
      example_finding ''f1'' ''p1'' ''q1'' 10] =
     mset (filter (\<lambda>r. f_projectId r = ''p1'') (findings example_findings_db)) \<and>
   filter (\<lambda>r. f_projectId r = ''p9'') (findings example_findings_db) = [] \<and>
   getFindings example_findings_db ''p9'' None = ([], example_findings_db)"
proof -
  have none: "\<forall>r\<in>set (findings example_findings_db). f_projectId r \<noteq> ''p9''"
    by (simp add: example_findings_db_def example_finding_def)
  show ?thesis
    using getFindings_spec [OF example_getFindings_q1] getFindings_spec [OF example_getFindings_all]
      getFindings_spec [OF example_getFindings_none]
      example_getFindings_q1 example_getFindings_none none
    by simp
qed








lemma example_getSources:
  "map s_id (getSources (example_sources_db\<lparr>sources :=
       [\<lparr>sr_project_id = ''p1'', sr_source = example_source ''s2'' (9/10)\<rparr>,
        \<lparr>sr_project_id = ''p1'', sr_source = stored_source ''s1'' (example_source ''s1'' (7/10))\<rparr>]\<rparr>)
      ''p1'') = [''s2'', ''s1'']"
  by (simp add: getSources_def order_by_desc_def example_source_def stored_source_def)


section \<open>Properties of planning\<close>





lemma mset_insert_by: "mset (insert_by cmp x ys) = add_mset x (mset ys)"
  by (induction ys) simp_all

lemma mset_sort_by: "mset (sort_by cmp xs) = mset xs"
  by (induction xs) (simp_all add: sort_by_def mset_insert_by)


lemma length_sort_by: "length (sort_by cmp xs) = length xs"
  using mset_sort_by [of cmp xs] by (rule mset_eq_length)






lemma length_agent_loop:
  "length (fst (agent_loop e p tg q as acc)) = length (fst acc) + length as"
  by (induction as arbitrary: acc) (auto simp add: split_paired_all)

lemma get_property_categoryAgentMap:
  "get_property categoryAgentMap c = Own as \<Longrightarrow> 1 \<le> length as \<and> length as \<le> 2"
  by (auto simp add: get_property_def categoryAgentMap_def split: if_splits)

lemma determineAgents_bounds:
  assumes "kq_category q \<notin> set object_prototype_members"
  shows "\<exists>as. determineAgentsForQuestion q = Value as \<and> 1 \<le> length as \<and> length as \<le> 2"
proof (cases "get_property categoryAgentMap (kq_category q)")
  case (Own as)
  then show ?thesis
    using get_property_categoryAgentMap [OF Own] by (simp add: determineAgentsForQuestion_def)
next
  case (Inherited k)
  then have False using assms by (simp add: get_property_def split: option.splits if_splits)
  then show ?thesis ..
next
  case Undefined
  then show ?thesis by (simp add: determineAgentsForQuestion_def)
qed

lemma question_loop_bounds:
  assumes "\<forall>q\<in>set qs. kq_category q \<notin> set object_prototype_members"
  shows "fst (question_loop e p tg qs acc) = None \<and>
    length (fst acc) + length qs \<le> length (fst (snd (question_loop e p tg qs acc))) \<and>
    length (fst (snd (question_loop e p tg qs acc))) \<le> length (fst acc) + 2 * length qs"
  using assms
proof (induction qs arbitrary: acc)
  case Nil
  then show ?case by simp
next
  case (Cons q qs)
  from Cons.prems determineAgents_bounds [of q] obtain as
    where as: "determineAgentsForQuestion q = Value as" "1 \<le> length as" "length as \<le> 2"
    by auto
  have rest: "\<forall>q\<in>set qs. kq_category q \<notin> set object_prototype_members"
    using Cons.prems by simp
  from Cons.IH [OF rest, of "agent_loop e p tg q as acc"] as(2,3)
  show ?case by (simp add: as(1) length_agent_loop)
qed

lemma plan_tasks_bounds:
  assumes "\<forall>q\<in>set (sd_keyQuestions doc). kq_category q \<notin> set object_prototype_members"
    and "sd_webSearch doc" and "sd_financialReports doc"
  shows "fst (plan_tasks e pid doc n) = None \<and>
    length (sd_keyQuestions doc) \<le> length (fst (snd (plan_tasks e pid doc n))) \<and>
    length (fst (snd (plan_tasks e pid doc n))) \<le> length (sd_keyQuestions doc) * 2 + 2"
proof -
  let ?r = "question_loop e pid (sd_targetCompany_name doc) (sd_keyQuestions doc) ([], n)"
  from question_loop_bounds [OF assms(1), of e pid "sd_targetCompany_name doc" "([], n)"]
  have b: "fst ?r = None" "length (sd_keyQuestions doc) \<le> length (fst (snd ?r))"
    "length (fst (snd ?r)) \<le> 2 * length (sd_keyQuestions doc)"
    by simp_all
  obtain ts m where r: "?r = (None, ts, m)" using b(1) by (cases ?r) auto
  show ?thesis using b assms(2,3) by (simp add: plan_tasks_def Let_def r)
qed

lemma planResearch_completes:
  "fst (planResearch e \<sigma>) = None \<longleftrightarrow>
     fst (plan_tasks e (p_id (project \<sigma>)) (p_scopingDocument (project \<sigma>)) (uuid_count \<sigma>)) = None"
  by (simp add: planResearch_def Let_def updateProjectStatus_def emitEvent_def
      split: prod.splits option.splits)

lemma taskQueue_planResearch:
  "fst (planResearch e \<sigma>) = None \<Longrightarrow>
   taskQueue (snd (planResearch e \<sigma>)) =
     sort_by compare_priority
       (fst (snd (plan_tasks e (p_id (project \<sigma>)) (p_scopingDocument (project \<sigma>))
          (uuid_count \<sigma>))))"
  by (simp add: planResearch_def Let_def updateProjectStatus_def emitEvent_def
      split: prod.splits option.splits)

text \<open>
  C3. Let no key question of the scoping document have as its category the name of a
  member inherited from \<open>Object.prototype\<close> (none of the categories of the schema is one),
  and let the web-search and financial-reports flags both be enabled. Then \<open>planResearch\<close>
  completes, and the task queue that it leaves has at least as many tasks as there are key
  questions and at most twice as many plus two.
\<close>

theorem planResearch_task_count:
  assumes "\<forall>q\<in>set (sd_keyQuestions (p_scopingDocument (project \<sigma>))).
             kq_category q \<notin> set object_prototype_members"
    and "sd_webSearch (p_scopingDocument (project \<sigma>))"
    and "sd_financialReports (p_scopingDocument (project \<sigma>))"
  shows "fst (planResearch e \<sigma>) = None \<and>
         length (sd_keyQuestions (p_scopingDocument (project \<sigma>)))
           \<le> length (taskQueue (snd (planResearch e \<sigma>))) \<and>
         length (taskQueue (snd (planResearch e \<sigma>)))
           \<le> length (sd_keyQuestions (p_scopingDocument (project \<sigma>))) * 2 + 2"
proof -
  note b = plan_tasks_bounds [OF assms, of e "p_id (project \<sigma>)" "uuid_count \<sigma>"]
  have c: "fst (planResearch e \<sigma>) = None"
    using b by (simp add: planResearch_completes)
  show ?thesis
    using b c by (simp add: taskQueue_planResearch [OF c] length_sort_by)
qed

theorem planResearch_task_count_witness:
  "list_all (\<lambda>q. kq_category q \<notin> set object_prototype_members)
     (sd_keyQuestions (p_scopingDocument (project (example_start example_plan_document 2)))) \<and>
   sd_webSearch (p_scopingDocument (project (example_start example_plan_document 2))) \<and>
   sd_financialReports (p_scopingDocument (project (example_start example_plan_document 2))) \<and>
   length (sd_keyQuestions example_plan_document) = 2 \<and>
   fst (planResearch example_env (example_start example_plan_document 2)) = None \<and>
   2 \<le> length (taskQueue (snd (planResearch example_env
          (example_start example_plan_document 2)))) \<and>
   length (taskQueue (snd (planResearch example_env
     (example_start example_plan_document 2)))) \<le> 6"
proof -
  have p: "p_scopingDocument (project (example_start example_plan_document 2)) = example_plan_document"
    by (simp add: example_start_def)
  have f: "sd_webSearch example_plan_document" "sd_financialReports example_plan_document"
    "length (sd_keyQuestions example_plan_document) = 2"
    by (simp_all add: example_plan_document_def example_document_def)
  have c: "list_all (\<lambda>q. kq_category q \<notin> set object_prototype_members)
      (sd_keyQuestions example_plan_document)"
    by (simp add: example_plan_document_def example_document_def example_question_def
        object_prototype_members_def)
  then have c': "\<forall>q\<in>set (sd_keyQuestions example_plan_document).
      kq_category q \<notin> set object_prototype_members"
    by (simp add: list_all_iff)
  show ?thesis
    using planResearch_task_count [of "example_start example_plan_document 2" example_env] f c c'
    by (simp add: p)
qed

text \<open>
  The nine categories of the schema; none is the name of an inherited member, and for each
  the lookup gives the agent types of the table.
\<close>

lemma schema_categories:
  "c \<in> {''financial'', ''competitive'', ''market'', ''leadership'', ''technology'', ''legal'',
         ''operational'', ''reputation'', ''custom''} \<Longrightarrow> c \<notin> set object_prototype_members"
  by (auto simp add: object_prototype_members_def)















section \<open>Properties of batches\<close>

lemma emitEvent_fields [simp]:
  "maxConcurrentAgents (emitEvent ev \<sigma>) = maxConcurrentAgents \<sigma>"
  "runningTasks (emitEvent ev \<sigma>) = runningTasks \<sigma>"
  "inflight (emitEvent ev \<sigma>) = inflight \<sigma>"
  "project (emitEvent ev \<sigma>) = project \<sigma>"
  "taskQueue (emitEvent ev \<sigma>) = taskQueue \<sigma>"
  "memory (emitEvent ev \<sigma>) = memory \<sigma>"
  "uuid_count (emitEvent ev \<sigma>) = uuid_count \<sigma>"
  "events (emitEvent ev \<sigma>) = events \<sigma> @ [ev]"
  by (simp_all add: emitEvent_def)

lemma updateAgentStatus_fields [simp]:
  "maxConcurrentAgents (updateAgentStatus \<sigma> a st t) = maxConcurrentAgents \<sigma>"
  "runningTasks (updateAgentStatus \<sigma> a st t) = runningTasks \<sigma>"
  "inflight (updateAgentStatus \<sigma> a st t) = inflight \<sigma>"
  "events (updateAgentStatus \<sigma> a st t) = events \<sigma>"
  "p_findings (project (updateAgentStatus \<sigma> a st t)) = p_findings (project \<sigma>)"
  "p_errors (project (updateAgentStatus \<sigma> a st t)) = p_errors (project \<sigma>)"
  "p_status (project (updateAgentStatus \<sigma> a st t)) = p_status (project \<sigma>)"
  by (simp_all add: updateAgentStatus_def)

lemma updateProjectStatus_fields [simp]:
  "maxConcurrentAgents (updateProjectStatus \<sigma> st n ph) = maxConcurrentAgents \<sigma>"
  "runningTasks (updateProjectStatus \<sigma> st n ph) = runningTasks \<sigma>"
  "inflight (updateProjectStatus \<sigma> st n ph) = inflight \<sigma>"
  "taskQueue (updateProjectStatus \<sigma> st n ph) = taskQueue \<sigma>"
  "events (updateProjectStatus \<sigma> st n ph) = events \<sigma> @ [ProjectUpdated st (Some n) (Some ph)]"
  "p_findings (project (updateProjectStatus \<sigma> st n ph)) = p_findings (project \<sigma>)"
  "p_errors (project (updateProjectStatus \<sigma> st n ph)) = p_errors (project \<sigma>)"
  "p_status (project (updateProjectStatus \<sigma> st n ph)) = st"
  "p_progress (project (updateProjectStatus \<sigma> st n ph)) = n"
  by (simp_all add: updateProjectStatus_def)

lemma pauseProject_fields [simp]:
  "maxConcurrentAgents (pauseProject \<sigma> pid) = maxConcurrentAgents \<sigma>"
  "runningTasks (pauseProject \<sigma> pid) = runningTasks \<sigma>"
  "inflight (pauseProject \<sigma> pid) = inflight \<sigma>"
  "p_findings (project (pauseProject \<sigma> pid)) = p_findings (project \<sigma>)"
  "p_errors (project (pauseProject \<sigma> pid)) = p_errors (project \<sigma>)"
  by (simp_all add: pauseProject_def)

lemma executeTask_start_fields [simp]:
  "maxConcurrentAgents (executeTask_start t \<sigma>) = maxConcurrentAgents \<sigma>"
  "runningTasks (executeTask_start t \<sigma>) = runningTasks \<sigma>"
  "inflight (executeTask_start t \<sigma>) = inflight \<sigma>"
  "p_findings (project (executeTask_start t \<sigma>)) = p_findings (project \<sigma>)"
  "p_errors (project (executeTask_start t \<sigma>)) = p_errors (project \<sigma>)"
  by (simp_all add: executeTask_start_def)


lemma admit_task_fields [simp]:
  "maxConcurrentAgents (admit_task t \<sigma>) = maxConcurrentAgents \<sigma>"
  "runningTasks (admit_task t \<sigma>) = set_add (t_id t) (runningTasks \<sigma>)"
  "inflight (admit_task t \<sigma>) = inflight \<sigma> @ [t]"
  "p_findings (project (admit_task t \<sigma>)) = p_findings (project \<sigma>)"
  "p_errors (project (admit_task t \<sigma>)) = p_errors (project \<sigma>)"
  by (simp_all add: admit_task_def)















lemma planResearch_fields [simp]:
  "maxConcurrentAgents (snd (planResearch e \<sigma>)) = maxConcurrentAgents \<sigma>"
  "runningTasks (snd (planResearch e \<sigma>)) = runningTasks \<sigma>"
  "inflight (snd (planResearch e \<sigma>)) = inflight \<sigma>"
  by (simp_all add: planResearch_def Let_def split: prod.splits option.splits)

lemma pauses_fields:
  "pauses cs \<sigma> = (\<sigma>', cs') \<Longrightarrow>
   maxConcurrentAgents \<sigma>' = maxConcurrentAgents \<sigma> \<and> runningTasks \<sigma>' = runningTasks \<sigma> \<and>
   inflight \<sigma>' = inflight \<sigma>"
  by (induction cs \<sigma> rule: pauses.induct) auto

lemma generateReport_fields [simp]:
  "maxConcurrentAgents (fst (snd (generateReport e cs \<sigma>))) = maxConcurrentAgents \<sigma>"
  "runningTasks (fst (snd (generateReport e cs \<sigma>))) = runningTasks \<sigma>"
  "inflight (fst (snd (generateReport e cs \<sigma>))) = inflight \<sigma>"
proof -
  let ?\<sigma>2 = "updateAgentStatus (updateProjectStatus \<sigma> Synthesizing 75 ''Generating research report'')
                 ''report_generator'' AgentActive (Some ''Generating final report'')"
  obtain \<sigma>3 cs3 where p: "pauses cs ?\<sigma>2 = (\<sigma>3, cs3)"
    by (cases "pauses cs ?\<sigma>2") auto
  have f: "maxConcurrentAgents \<sigma>3 = maxConcurrentAgents \<sigma>" "runningTasks \<sigma>3 = runningTasks \<sigma>"
    "inflight \<sigma>3 = inflight \<sigma>"
    using pauses_fields [OF p] by simp_all
  show "maxConcurrentAgents (fst (snd (generateReport e cs \<sigma>))) = maxConcurrentAgents \<sigma>"
    "runningTasks (fst (snd (generateReport e cs \<sigma>))) = runningTasks \<sigma>"
    "inflight (fst (snd (generateReport e cs \<sigma>))) = inflight \<sigma>"
    using p f
    by (simp_all add: generateReport_def Let_def split: exec_outcome.splits option.splits)
qed

lemma finalizeProject_fields [simp]:
  "maxConcurrentAgents (finalizeProject \<sigma>) = maxConcurrentAgents \<sigma>"
  "runningTasks (finalizeProject \<sigma>) = runningTasks \<sigma>"
  "inflight (finalizeProject \<sigma>) = inflight \<sigma>"
  by (simp_all add: finalizeProject_def Let_def split: prod.splits)

lemma handleProjectError_fields [simp]:
  "maxConcurrentAgents (handleProjectError e \<sigma> err) = maxConcurrentAgents \<sigma>"
  "runningTasks (handleProjectError e \<sigma> err) = runningTasks \<sigma>"
  "inflight (handleProjectError e \<sigma> err) = inflight \<sigma>"
  by (simp_all add: handleProjectError_def Let_def)




lemma batch_run_orchestrator_run:
  "batch_run e cs (\<sigma>, b) = Some (\<sigma>', b') \<Longrightarrow> \<exists>steps. orchestrator_run e steps \<sigma> = Some \<sigma>'"
proof (induction cs arbitrary: \<sigma> b)
  case Nil
  then have "orchestrator_run e [] \<sigma> = Some \<sigma>'" by simp
  then show ?case by blast
next
  case (Cons c cs)
  from Cons.prems obtain \<sigma>1 b1 where st: "batch_step e c (\<sigma>, b) = Some (\<sigma>1, b1)"
    and run: "batch_run e cs (\<sigma>1, b1) = Some (\<sigma>', b')"
    by (auto split: option.splits)
  from Cons.IH [OF run] obtain steps where "orchestrator_run e steps \<sigma>1 = Some \<sigma>'" by blast
  then have "orchestrator_run e (LoopStep c b # steps) \<sigma> = Some \<sigma>'"
    using st by (simp add: orchestrator_step_def)
  then show ?case by blast
qed



lemma example_batch_run:
  "map_option (\<lambda>s. (runningTasks (fst s), map t_id (inflight (fst s))))
     (batch_run example_env [Admit, Admit, Poll, Finish 0, Poll, Admit]
        (example_batch_start, new_batch example_batch_tasks ''Deep analysis''))
   = Some ([''t2'', ''t3''], [''t2'', ''t3''])"
  by code_simp



section \<open>Properties of task execution\<close>









lemma outcome_of_waiting [simp]: "outcome_of (b\<lparr>b_waiting := w\<rparr>) = outcome_of b"
  by (simp add: outcome_of_def split: option.splits)









lemma example_throw_fails_project:
  "map_option (\<lambda>\<sigma>. (p_status (project \<sigma>), p_progress (project \<sigma>),
                      map e_recoverable (p_errors (project \<sigma>))))
     (executeWorkflow example_env [Admit, Finish 0, Admit, Finish 0]
        (example_start (example_document [example_question ''q1'' ''critical'' ''financial''] False) 2)) =
   Some (Failed, 45, [False])"
  by code_simp

section \<open>Properties of the workflow\<close>

lemma progress_values_append:
  "progress_values (xs @ ys) = progress_values xs @ progress_values ys"
  by (induction xs rule: progress_values.induct) simp_all

lemma pv_emitEvent:
  "progress_values (events (emitEvent ev \<sigma>)) = progress_values (events \<sigma>) @ progress_values [ev]"
  by (simp add: progress_values_append)

lemma pv_updateProjectStatus:
  "progress_values (events (updateProjectStatus \<sigma> st n ph)) = progress_values (events \<sigma>) @ [n]"
  by (simp add: progress_values_append)

lemma pv_pauseProject:
  "progress_values (events (pauseProject \<sigma> pid)) = progress_values (events \<sigma>)"
  by (simp add: pauseProject_def progress_values_append)

lemma pv_executeTask_start:
  "progress_values (events (executeTask_start t \<sigma>)) = progress_values (events \<sigma>)"
  by (simp add: executeTask_start_def progress_values_append)

lemma pv_executeTask_resume:
  "progress_values (events (snd (executeTask_resume e t \<sigma>))) = progress_values (events \<sigma>)"
  by (simp add: executeTask_resume_def Let_def progress_values_append split: exec_outcome.splits)

lemma pv_admit_task:
  "progress_values (events (admit_task t \<sigma>)) = progress_values (events \<sigma>)"
  by (simp add: admit_task_def pv_executeTask_start)

lemma pv_finish_task:
  "progress_values (events (fst (finish_task e i (\<sigma>, b)))) = progress_values (events \<sigma>)"
proof -
  let ?\<sigma>0 = "\<sigma>\<lparr>inflight := take i (inflight \<sigma>) @ drop (Suc i) (inflight \<sigma>)\<rparr>"
  obtain th \<sigma>1 where r: "executeTask_resume e (inflight \<sigma> ! i) ?\<sigma>0 = (th, \<sigma>1)"
    by (cases "executeTask_resume e (inflight \<sigma> ! i) ?\<sigma>0") auto
  have "progress_values (events \<sigma>1) = progress_values (events \<sigma>)"
    using pv_executeTask_resume [of e "inflight \<sigma> ! i" ?\<sigma>0] r by simp
  then show ?thesis
    using r by (simp add: finish_task_def Let_def progress_values_append split: option.splits)
qed

lemma pv_batch_step:
  "batch_step e c s = Some s' \<Longrightarrow>
   progress_values (events (fst s')) = progress_values (events (fst s))"
  by (cases s; cases c)
    (auto simp add: batch_step_def pv_admit_task pv_finish_task pv_pauseProject
      split: list.splits if_splits)

lemma pv_batch_loop:
  "batch_loop e cs s = Some (s', cs') \<Longrightarrow>
   progress_values (events (fst s')) = progress_values (events (fst s))"
proof (induction cs arbitrary: s)
  case Nil
  then show ?case by (simp split: if_splits)
next
  case (Cons c cs)
  show ?case
  proof (cases "batch_settled s")
    case True
    then show ?thesis using Cons.prems by simp
  next
    case False
    then obtain s1 where st: "batch_step e c s = Some s1"
      and l: "batch_loop e cs s1 = Some (s', cs')"
      using Cons.prems by (auto split: option.splits)
    from Cons.IH [OF l] pv_batch_step [OF st] show ?thesis by simp
  qed
qed

lemma pv_executeTaskBatch:
  "executeTaskBatch e cs \<sigma> tasks name = Some (outcome, \<sigma>', cs') \<Longrightarrow>
   progress_values (events \<sigma>') = progress_values (events \<sigma>)"
  using pv_batch_loop [of e cs "(\<sigma>, new_batch tasks name)"]
  by (auto simp add: executeTaskBatch_def split: option.splits)

lemma pv_planResearch:
  "planResearch e \<sigma> = (None, \<sigma>') \<Longrightarrow>
   progress_values (events \<sigma>') = progress_values (events \<sigma>) @ [5, 10]"
  by (auto simp add: planResearch_def Let_def progress_values_append
      split: prod.splits option.splits)

lemma pv_executePrimaryResearch:
  "executePrimaryResearch e cs \<sigma> = Some (None, \<sigma>', cs') \<Longrightarrow>
   progress_values (events \<sigma>') = progress_values (events \<sigma>) @ [15, 40]"
  by (auto simp add: executePrimaryResearch_def Let_def progress_values_append
      dest!: pv_executeTaskBatch split: option.splits prod.splits batch_outcome.splits)

lemma pv_executeDeepAnalysis:
  "executeDeepAnalysis e cs \<sigma> = Some (None, \<sigma>', cs') \<Longrightarrow>
   progress_values (events \<sigma>') = progress_values (events \<sigma>) @ [45, 70]"
  by (auto simp add: executeDeepAnalysis_def Let_def progress_values_append
      dest!: pv_executeTaskBatch split: option.splits prod.splits batch_outcome.splits)

lemma pv_pauses:
  "pauses cs \<sigma> = (\<sigma>', cs') \<Longrightarrow> progress_values (events \<sigma>') = progress_values (events \<sigma>)"
  by (induction cs \<sigma> rule: pauses.induct) (auto simp add: pv_pauseProject)

lemma pv_generateReport:
  assumes "generateReport e cs \<sigma> = (None, \<sigma>', cs')"
  shows "progress_values (events \<sigma>') = progress_values (events \<sigma>) @ [75, 90]"
proof -
  let ?\<sigma>2 = "updateAgentStatus (updateProjectStatus \<sigma> Synthesizing 75 ''Generating research report'')
                 ''report_generator'' AgentActive (Some ''Generating final report'')"
  obtain \<sigma>3 cs3 where p: "pauses cs ?\<sigma>2 = (\<sigma>3, cs3)"
    by (cases "pauses cs ?\<sigma>2") auto
  have pv3: "progress_values (events \<sigma>3) = progress_values (events \<sigma>) @ [75]"
    using pv_pauses [OF p] by (simp add: progress_values_append)
  show ?thesis
    using assms p pv3
    by (auto simp add: generateReport_def Let_def progress_values_append
        split: exec_outcome.splits option.splits if_splits)
qed

lemma pv_finalizeProject:
  "progress_values (events (finalizeProject \<sigma>)) = progress_values (events \<sigma>) @ [95, 100]"
  by (simp add: finalizeProject_def Let_def progress_values_append split: prod.splits)

lemma finalizeProject_progress:
  "p_progress (project (finalizeProject \<sigma>)) = 100 \<and>
   p_status (project (finalizeProject \<sigma>)) = Completed"
  by (simp add: finalizeProject_def Let_def split: prod.splits)

text \<open>
  C5. In every run of the workflow in which no phase throws, whatever the interleaving of
  the batches and of calls of \<open>pauseProject\<close>, the progress values set during the run are
  5, 10, 15, 40, 45, 70, 75, 90, 95, 100 in this order: a non-decreasing sequence that
  passes through the checkpoints 5, 10, 40, 70, 90, 100 and ends at 100, where the project
  is completed.
\<close>

theorem workflow_progress:
  assumes "workflow_phases e cs \<sigma> = Some (None, \<sigma>')"
  shows "progress_values (events \<sigma>') =
           progress_values (events \<sigma>) @ [5, 10, 15, 40, 45, 70, 75, 90, 95, 100] \<and>
         sorted (drop (length (progress_values (events \<sigma>))) (progress_values (events \<sigma>'))) \<and>
         subseq [5, 10, 40, 70, 90, 100]
           (drop (length (progress_values (events \<sigma>))) (progress_values (events \<sigma>'))) \<and>
         last (progress_values (events \<sigma>')) = 100 \<and>
         p_progress (project \<sigma>') = 100 \<and> p_status (project \<sigma>') = Completed"
proof -
  from assms obtain \<sigma>0 \<sigma>1 cs1 \<sigma>2 cs2 \<sigma>3 cs3 where
    p: "planResearch e \<sigma> = (None, \<sigma>0)"
    and a: "executePrimaryResearch e cs \<sigma>0 = Some (None, \<sigma>1, cs1)"
    and b: "executeDeepAnalysis e cs1 \<sigma>1 = Some (None, \<sigma>2, cs2)"
    and c: "generateReport e cs2 \<sigma>2 = (None, \<sigma>3, cs3)"
    and d: "\<sigma>' = finalizeProject \<sigma>3"
    by (auto simp add: workflow_phases_def split: option.splits prod.splits)
  have pv: "progress_values (events \<sigma>') =
           progress_values (events \<sigma>) @ [5, 10, 15, 40, 45, 70, 75, 90, 95, 100]"
    using pv_planResearch [OF p] pv_executePrimaryResearch [OF a] pv_executeDeepAnalysis [OF b]
      pv_generateReport [OF c]
    by (simp add: d pv_finalizeProject)
  have sub: "subseq [5, 10, 40, 70, 90, 100] [5, 10, 15, 40, 45, 70, 75, 90, 95, 100::int]"
    by simp
  have fin: "p_progress (project \<sigma>') = 100 \<and> p_status (project \<sigma>') = Completed"
    unfolding d by (rule finalizeProject_progress)
  show ?thesis
    using sub fin by (simp add: pv)
qed

lemma example_market_run:
  "map_option (\<lambda>r. (fst r, progress_values (events (snd r))))
     (workflow_phases example_env [Admit, Finish 0, Admit, Finish 0] example_market_start) =
   Some (None, [5, 10, 15, 40, 45, 70, 75, 90, 95, 100])"
  by code_simp

theorem workflow_progress_witness:
  "\<exists>\<sigma>'. workflow_phases example_env [Admit, Finish 0, Admit, Finish 0] example_market_start
           = Some (None, \<sigma>') \<and>
     progress_values (events example_market_start) = [] \<and>
     progress_values (events \<sigma>') = [5, 10, 15, 40, 45, 70, 75, 90, 95, 100] \<and>
     p_progress (project \<sigma>') = 100 \<and> p_status (project \<sigma>') = Completed"
proof -
  obtain \<sigma>' where run: "workflow_phases example_env [Admit, Finish 0, Admit, Finish 0]
      example_market_start = Some (None, \<sigma>')"
    using example_market_run by (auto simp add: map_option_case split: option.splits)
  have e: "progress_values (events example_market_start) = []"
    by (simp add: example_market_start_def example_start_def)
  show ?thesis
    using workflow_progress [OF run] run e by auto
qed

lemma pauseProject_status:
  "p_status (project (pauseProject \<sigma> pid)) =
     (if pid = p_id (project \<sigma>) \<and> p_status (project \<sigma>) \<noteq> Completed \<and>
         p_status (project \<sigma>) \<noteq> Failed
      then Paused else p_status (project \<sigma>))"
  by (simp add: pauseProject_def)

text \<open>
  C2. \<open>pauseProject\<close> sets the status to paused exactly when the project is the active one
  and is neither completed nor failed (\<open>pauseProject_status\<close>). The workflow does not read
  the status: in the run below \<open>pauseProject\<close> is called while the task of the analysis
  batch is in flight; the task ends, and the workflow sets the status back to analyzing,
  goes through synthesizing and reviewing and ends completed at progress 100.
\<close>

theorem pause_does_not_halt_workflow:
  "map_option (\<lambda>\<sigma>. (p_status (project \<sigma>), p_progress (project \<sigma>), status_values (events \<sigma>)))
     (executeWorkflow example_env [Admit, Finish 0, Admit, Pause ''p1'', Finish 0]
        example_market_start) =
   Some (Completed, 100,
     [Initializing, Researching, Researching, Researching, Analyzing, Paused, Analyzing,
      Synthesizing, Synthesizing, Reviewing, Completed])"
  by code_simp

end
